theory Spec2Isabelle
  imports Complex_Main "HOL-Library.Log_Nat"
begin

section \<open>JavaScript values used by the booking helpers\<close>

text \<open>
  The TypeScript type \<open>number\<close> is an IEEE 754 double. Every finite double is a rational,
  so a finite number is \<open>Num q\<close>; the three special values are kept as constructors because
  the code can produce them (a division by a zero total weight, \<open>Math.min\<close> of no arguments,
  a property that is missing and read as \<open>undefined\<close>).

  Addition, multiplication and division of doubles give the exact result rounded to the
  nearest double, ties to the even significand (\<open>roundDouble\<close>): 53 bits of significand,
  exponents from \<open>-1022\<close> to \<open>1023\<close>, subnormal numbers below, infinity from \<open>2^1024 - 2^970\<close>
  on. Negation and the comparisons are exact.

  The sign of zero is not kept. It is not observable in the functions below: the only
  divisor is a sum that starts at \<open>0\<close>, which is never \<open>-0\<close>, and comparisons do not tell
  the zeros apart.
\<close>

datatype number = Num rat | PosInfinity | NegInfinity | NaN

definition pow2 :: "int \<Rightarrow> rat" where
  "pow2 k = (if 0 \<le> k then 2 ^ nat k else 1 / 2 ^ nat (- k))"

text \<open>The exponent \<open>e\<close> of a positive rational \<open>m\<close>: \<open>2^e \<le> m < 2^(e+1)\<close>.\<close>

definition floorLog2 :: "rat \<Rightarrow> int" where
  "floorLog2 m = (if 1 \<le> m then bitlen \<lfloor>m\<rfloor> - 1 else - bitlen (\<lceil>1 / m\<rceil> - 1))"

definition roundHalfEven :: "rat \<Rightarrow> int" where
  "roundHalfEven x =
     (let f = \<lfloor>x\<rfloor>; d = x - of_int f
      in if d < 1 / 2 then f else if 1 / 2 < d then f + 1 else if even f then f else f + 1)"

definition roundDouble :: "rat \<Rightarrow> number" where
  "roundDouble q =
     (if q = 0 then Num 0
      else
        (let m = \<bar>q\<bar>;
             e = max (floorLog2 m) (- 1022);
             ulp = pow2 (e - 52);
             r = of_int (roundHalfEven (m / ulp)) * ulp
         in if pow2 1024 \<le> r then (if 0 < q then PosInfinity else NegInfinity)
            else Num (if 0 < q then r else - r)))"

fun js_neg :: "number \<Rightarrow> number" where
  "js_neg (Num a) = Num (- a)"
| "js_neg PosInfinity = NegInfinity"
| "js_neg NegInfinity = PosInfinity"
| "js_neg NaN = NaN"

fun js_add :: "number \<Rightarrow> number \<Rightarrow> number" where
  "js_add (Num a) (Num b) = roundDouble (a + b)"
| "js_add NaN _ = NaN"
| "js_add _ NaN = NaN"
| "js_add PosInfinity NegInfinity = NaN"
| "js_add NegInfinity PosInfinity = NaN"
| "js_add PosInfinity _ = PosInfinity"
| "js_add _ PosInfinity = PosInfinity"
| "js_add NegInfinity _ = NegInfinity"
| "js_add _ NegInfinity = NegInfinity"

fun js_mul :: "number \<Rightarrow> number \<Rightarrow> number" where
  "js_mul (Num a) (Num b) = roundDouble (a * b)"
| "js_mul NaN _ = NaN"
| "js_mul _ NaN = NaN"
| "js_mul (Num a) PosInfinity = (if a = 0 then NaN else if 0 < a then PosInfinity else NegInfinity)"
| "js_mul (Num a) NegInfinity = (if a = 0 then NaN else if 0 < a then NegInfinity else PosInfinity)"
| "js_mul PosInfinity (Num b) = (if b = 0 then NaN else if 0 < b then PosInfinity else NegInfinity)"
| "js_mul NegInfinity (Num b) = (if b = 0 then NaN else if 0 < b then NegInfinity else PosInfinity)"
| "js_mul PosInfinity PosInfinity = PosInfinity"
| "js_mul PosInfinity NegInfinity = NegInfinity"
| "js_mul NegInfinity PosInfinity = NegInfinity"
| "js_mul NegInfinity NegInfinity = PosInfinity"

fun js_div :: "number \<Rightarrow> number \<Rightarrow> number" where
  "js_div (Num a) (Num b) =
     (if b \<noteq> 0 then roundDouble (a / b)
      else if a = 0 then NaN else if 0 < a then PosInfinity else NegInfinity)"
| "js_div NaN _ = NaN"
| "js_div _ NaN = NaN"
| "js_div (Num a) PosInfinity = Num 0"
| "js_div (Num a) NegInfinity = Num 0"
| "js_div PosInfinity (Num b) = (if b < 0 then NegInfinity else PosInfinity)"
| "js_div NegInfinity (Num b) = (if b < 0 then PosInfinity else NegInfinity)"
| "js_div PosInfinity PosInfinity = NaN"
| "js_div PosInfinity NegInfinity = NaN"
| "js_div NegInfinity PosInfinity = NaN"
| "js_div NegInfinity NegInfinity = NaN"

text \<open>\<open>a > b\<close> and \<open>a <= b\<close>: both are false as soon as one side is \<open>NaN\<close>.\<close>

fun js_gt :: "number \<Rightarrow> number \<Rightarrow> bool" where
  "js_gt (Num a) (Num b) = (b < a)"
| "js_gt NaN _ = False"
| "js_gt _ NaN = False"
| "js_gt PosInfinity PosInfinity = False"
| "js_gt PosInfinity _ = True"
| "js_gt _ PosInfinity = False"
| "js_gt NegInfinity _ = False"
| "js_gt (Num a) NegInfinity = True"

fun js_le :: "number \<Rightarrow> number \<Rightarrow> bool" where
  "js_le (Num a) (Num b) = (a \<le> b)"
| "js_le NaN _ = False"
| "js_le _ NaN = False"
| "js_le NegInfinity _ = True"
| "js_le _ PosInfinity = True"
| "js_le PosInfinity _ = False"
| "js_le (Num a) NegInfinity = False"

text \<open>
  \<open>Math.min(...xs)\<close> and \<open>Math.max(...xs)\<close>: \<open>Infinity\<close> and \<open>-Infinity\<close> for no
  arguments, \<open>NaN\<close> as soon as one argument is \<open>NaN\<close>.
\<close>

fun js_min2 :: "number \<Rightarrow> number \<Rightarrow> number" where
  "js_min2 NaN _ = NaN"
| "js_min2 _ NaN = NaN"
| "js_min2 a b = (if js_le a b then a else b)"

fun js_max2 :: "number \<Rightarrow> number \<Rightarrow> number" where
  "js_max2 NaN _ = NaN"
| "js_max2 _ NaN = NaN"
| "js_max2 a b = (if js_le a b then b else a)"

definition Math_min :: "number list \<Rightarrow> number" where
  "Math_min xs = foldl js_min2 PosInfinity xs"

definition Math_max :: "number list \<Rightarrow> number" where
  "Math_max xs = foldl js_max2 NegInfinity xs"

text \<open>
  What a function can throw. \<open>Rejected\<close> is the failure of an external collaborator (a
  repository call, a provider, the ranking function), which the awaiting code receives as
  a thrown value. \<open>UnhandledRejection\<close> is not thrown by the function: it stands for a
  promise that rejects while no handler is attached to it. The run-time then applies its
  policy for unhandled rejections, which in Node raises the rejection as an uncaught
  exception and ends the process unless a hook is installed; the run of the function
  stops there.
\<close>

datatype error =
    TypeError string
  | Error string
  | HttpError int string
  | ZodError string
  | Rejected string
  | UnhandledRejection

section \<open>Lead-threshold host filter\<close>

subsection \<open>Data\<close>

record baseUser =
  user_id :: int
  email :: string

record baseHost =
  isFixed :: bool
  createdAt :: int
  priority :: "number option"
  weight :: "number option"
  weightAdjustment :: "number option"
  user :: baseUser

record eventType =
  eventType_id :: int
  isRRWeightsEnabled :: bool
  team :: "int option option"

text \<open>
  A \<open>Record<number, number>\<close>: an object whose property names are user ids. It is kept as
  the list of its entries, in the order \<open>for ... in\<close> and \<open>Object.values\<close> visit them; the
  property name is kept as the integer that \<open>parseInt(userIdStr, 10)\<close> gives back.
\<close>

type_synonym numberRecord = "(int \<times> number) list"

record perUserData =
  bookingsCount :: numberRecord
  bookingShortfalls :: "numberRecord option"
  calibrations :: "numberRecord option"
  weights :: "numberRecord option"

record weightedPerUserData =
  bookingsCountW :: numberRecord
  bookingShortfallsW :: numberRecord
  calibrationsW :: numberRecord
  weightsW :: numberRecord

text \<open>
  An element of \<open>availableUsers\<close>: the host's user, with the host's weight and priority
  (\<open>?? null\<close>: an absent value and \<open>null\<close> are both \<open>None\<close>).
\<close>

record availableUser =
  au_user :: baseUser
  au_weight :: "number option"
  au_priority :: "number option"

text \<open>
  The ranking function \<open>getOrderedListOfLuckyUsers\<close> is an external collaborator: it is a
  parameter of the filter. It reads the database, so it runs on a state \<open>'s\<close> of its own
  and may reject. Its arguments are \<open>availableUsers\<close>, \<open>eventType\<close> and \<open>allRRHosts\<close>
  (\<open>routingFormResponse\<close> is always \<open>null\<close>); of its result only \<open>perUserData\<close> is read.
\<close>

type_synonym 's getOrderedListOfLuckyUsers =
  "availableUser list \<Rightarrow> eventType \<Rightarrow> baseHost list \<Rightarrow> 's \<Rightarrow> (error + perUserData) \<times> 's"

subsection \<open>The two policies\<close>

text \<open>
  Reading a property for arithmetic: a missing property is \<open>undefined\<close>, which negation
  and division turn into \<open>NaN\<close>.
\<close>

definition numberAt :: "numberRecord \<Rightarrow> int \<Rightarrow> number" where
  "numberAt r userId = (case map_of r userId of Some v \<Rightarrow> v | None \<Rightarrow> NaN)"

text \<open>
  The \<open>for (const userIdStr in perUserData.bookingsCount)\<close> loop of the weighted policy,
  over the property names still to visit; \<open>filteredUserIds.push\<close> appends. The calls of
  \<open>log.debug\<close> have no effect on the result and are left out.
\<close>

fun withWeightsLoop ::
  "weightedPerUserData \<Rightarrow> number \<Rightarrow> number \<Rightarrow> int list \<Rightarrow> int list \<Rightarrow> int list" where
  "withWeightsLoop perUserData maxLeadThreshold totalWeight [] filteredUserIds = filteredUserIds"
| "withWeightsLoop perUserData maxLeadThreshold totalWeight (userId # rest) filteredUserIds =
     (let shortfall = numberAt (bookingShortfallsW perUserData) userId;
          wt = numberAt (weightsW perUserData) userId;
          weightPercentage = js_div wt totalWeight;
          allowedLead = js_mul maxLeadThreshold weightPercentage
      in if js_gt (js_neg shortfall) allowedLead
         then withWeightsLoop perUserData maxLeadThreshold totalWeight rest filteredUserIds
         else withWeightsLoop perUserData maxLeadThreshold totalWeight rest
                (filteredUserIds @ [userId]))"

definition filterHostsByLeadThresholdWithWeights :: "weightedPerUserData \<Rightarrow> number \<Rightarrow> int list" where
  "filterHostsByLeadThresholdWithWeights perUserData maxLeadThreshold =
     (let totalWeight = foldl (\<lambda>acc wt. js_add acc wt) (Num 0) (map snd (weightsW perUserData))
      in withWeightsLoop perUserData maxLeadThreshold totalWeight
           (map fst (bookingsCountW perUserData)) [])"

text \<open>The loop of the unweighted policy. \<open>maxBookings\<close> is only logged.\<close>

fun withoutWeightsLoop ::
  "perUserData \<Rightarrow> number \<Rightarrow> number \<Rightarrow> int list \<Rightarrow> int list \<Rightarrow> int list" where
  "withoutWeightsLoop perUserData maxLeadThreshold minBookings [] filteredUserIds = filteredUserIds"
| "withoutWeightsLoop perUserData maxLeadThreshold minBookings (userId # rest) filteredUserIds =
     (let count = numberAt (bookingsCount perUserData) userId
      in if js_le count (js_add minBookings maxLeadThreshold)
         then withoutWeightsLoop perUserData maxLeadThreshold minBookings rest
                (filteredUserIds @ [userId])
         else withoutWeightsLoop perUserData maxLeadThreshold minBookings rest filteredUserIds)"

definition filterHostsByLeadThresholdWithoutWeights :: "perUserData \<Rightarrow> number \<Rightarrow> int list" where
  "filterHostsByLeadThresholdWithoutWeights perUserData maxLeadThreshold =
     (let bookingsArray = map snd (bookingsCount perUserData);
          minBookings = Math_min bookingsArray;
          maxBookings = Math_max bookingsArray
      in withoutWeightsLoop perUserData maxLeadThreshold minBookings
           (map fst (bookingsCount perUserData)) [])"

subsection \<open>The filter\<close>

definition toAvailableUser :: "baseHost \<Rightarrow> availableUser" where
  "toAvailableUser host =
     \<lparr> au_user = user host, au_weight = weight host, au_priority = priority host \<rparr>"

text \<open>
  \<open>filterHostsByLeadThreshold\<close>. The argument list of the ranking call reads
  \<open>hosts[0].user\<close> before the call is made: on an empty array \<open>hosts[0]\<close> is \<open>undefined\<close>
  and the property read throws a \<open>TypeError\<close>.
\<close>

definition filterHostsByLeadThreshold ::
  "'s getOrderedListOfLuckyUsers \<Rightarrow> baseHost list \<Rightarrow> number option \<Rightarrow> eventType \<Rightarrow> 's
     \<Rightarrow> (error + baseHost list) \<times> 's" where
  "filterHostsByLeadThreshold getOrderedListOfLuckyUsers hosts maxLeadThreshold eventType s =
     (case maxLeadThreshold of
        None \<Rightarrow> (Inr hosts, s)
      | Some mlt \<Rightarrow>
          (case hosts of
             [] \<Rightarrow> (Inl (TypeError ''Cannot read properties of undefined (reading user)''), s)
           | host0 # rest \<Rightarrow>
               (case getOrderedListOfLuckyUsers
                       (toAvailableUser host0 # map toAvailableUser rest) eventType hosts s of
                  (Inl e, s') \<Rightarrow> (Inl e, s')
                | (Inr perUserData, s') \<Rightarrow>
                    (if isRRWeightsEnabled eventType then
                       (case (calibrations perUserData, weights perUserData,
                              bookingShortfalls perUserData) of
                          (Some cal, Some ws, Some sf) \<Rightarrow>
                            (let filteredUserIds =
                                   filterHostsByLeadThresholdWithWeights
                                     \<lparr> bookingsCountW = bookingsCount perUserData,
                                       bookingShortfallsW = sf,
                                       calibrationsW = cal,
                                       weightsW = ws \<rparr> mlt
                             in (Inr (filter (\<lambda>host. user_id (user host) \<in> set filteredUserIds) hosts), s'))
                        | _ \<Rightarrow>
                            (Inl (Error ''Calibrations, weights, or booking shortfalls are null''), s'))
                     else
                       (let filteredUserIds =
                              filterHostsByLeadThresholdWithoutWeights perUserData mlt
                        in (Inr (filter (\<lambda>host. user_id (user host) \<in> set filteredUserIds) hosts), s'))))))"

section \<open>Awaited calls\<close>

text \<open>
  An \<open>async\<close> function is a function on the state of the world around it: it returns the
  value it resolves to, or the error it throws, and the world it leaves.
\<close>

type_synonym ('w, 'a) action = "'w \<Rightarrow> (error + 'a) \<times> 'w"

definition returnA :: "'a \<Rightarrow> ('w, 'a) action" where
  "returnA x w = (Inr x, w)"

definition throwA :: "error \<Rightarrow> ('w, 'a) action" where
  "throwA err w = (Inl err, w)"

text \<open>\<open>await m\<close> and then the rest of the function: a rejection is thrown, which ends it.\<close>

definition await :: "('w, 'a) action \<Rightarrow> ('a \<Rightarrow> ('w, 'b) action) \<Rightarrow> ('w, 'b) action" where
  "await m f w = (case m w of (Inl err, w') \<Rightarrow> (Inl err, w') | (Inr x, w') \<Rightarrow> f x w')"

text \<open>\<open>try { m } catch (error) { handler }\<close>.\<close>

definition tryCatch :: "('w, 'a) action \<Rightarrow> (error \<Rightarrow> ('w, 'a) action) \<Rightarrow> ('w, 'a) action" where
  "tryCatch m handler w = (case m w of (Inl err, w') \<Rightarrow> handler err w' | (Inr x, w') \<Rightarrow> (Inr x, w'))"

text \<open>
  An external call that is awaited where it is made: it rejects, with no effect, when
  \<open>rejected\<close> holds, and has its effect otherwise. A call that fails half-way is not
  modelled.
\<close>

definition external :: "bool \<Rightarrow> ('w \<Rightarrow> 'a \<times> 'w) \<Rightarrow> ('w, 'a) action" where
  "external rejected effect w =
     (if rejected then (Inl (Rejected ''external call''), w)
      else (case effect w of (x, w') \<Rightarrow> (Inr x, w')))"

text \<open>
  \<open>Promise.all\<close> over promises whose calls have been made, each given by its outcome: it
  throws the first rejection, and resolves to the values when there is none.
\<close>

fun settleAll :: "(error + 'a) list \<Rightarrow> error + 'a list" where
  "settleAll [] = Inr []"
| "settleAll (Inl err # ps) = Inl err"
| "settleAll (Inr x # ps) = (case settleAll ps of Inl err \<Rightarrow> Inl err | Inr xs \<Rightarrow> Inr (x # xs))"

definition awaitAll :: "(error + 'a) list \<Rightarrow> ('w, 'a list) action" where
  "awaitAll promises w = (settleAll promises, w)"

text \<open>
  A \<open>for ... of\<close> loop whose body awaits: the body gets the element and the value built so
  far; an error thrown in the body ends the loop.
\<close>

fun forEachAwait :: "('a \<Rightarrow> 'b \<Rightarrow> ('w, 'b) action) \<Rightarrow> 'a list \<Rightarrow> 'b \<Rightarrow> ('w, 'b) action" where
  "forEachAwait body [] acc w = (Inr acc, w)"
| "forEachAwait body (x # xs) acc w =
     (case body x acc w of
        (Inl err, w') \<Rightarrow> (Inl err, w')
      | (Inr acc', w') \<Rightarrow> forEachAwait body xs acc' w')"

section \<open>Organization onboarding finalizer\<close>

subsection \<open>Data\<close>

datatype billingPeriod = MONTHLY | ANNUALLY

record invitedMember =
  member_email :: string
  member_name :: "string option"

record teamData =
  team_id :: int
  team_name :: string
  isBeingMigrated :: bool
  team_slug :: string

text \<open>
  The fields of \<open>OrganizationOnboarding\<close> that the finalizer picks. \<open>invitedMembers\<close> and
  \<open>teams\<close> are stored JSON, checked against a schema when read: \<open>None\<close> is a value that
  the schema refuses.
\<close>

record organizationOnboarding =
  onb_id :: int
  onb_organizationId :: "int option"
  onb_name :: string
  onb_slug :: string
  orgOwnerEmail :: string
  onb_seats :: "int option"
  onb_pricePerSeat :: "number option"
  onb_billingPeriod :: "billingPeriod option"
  onb_invitedMembers :: "invitedMember list option"
  onb_teams :: "teamData list option"
  onb_isPlatform :: bool
  onb_logo :: "string option"
  onb_bio :: "string option"

record organizationData =
  od_id :: "int option"
  od_name :: string
  od_slug :: string
  isOrganizationConfigured :: bool
  isOrganizationAdminReviewed :: bool
  autoAcceptEmail :: "string option"
  od_seats :: "int option"
  od_pricePerSeat :: "number option"
  od_isPlatform :: bool
  logoUrl :: "string option"
  od_bio :: "string option"
  od_billingPeriod :: "billingPeriod option"
  od_paymentSubscriptionId :: string

text \<open>The user that \<open>findUserToBeOrgOwner\<close> returns, and a stored organization (a team row).\<close>

record orgOwner =
  owner_id :: int
  owner_email :: string
  owner_username :: "string option"
  owner_locale :: "string option"

record organization =
  org_id :: int
  org_name :: string
  org_slug :: "string option"
  org_isPlatform :: bool

record organizationCreationEmail =
  mail_to :: string
  mail_orgName :: string
  mail_orgSlug :: string
  ownerNewUsername :: string
  ownerOldUsername :: string

record invitation =
  inv_teamId :: int
  inv_orgSlug :: "string option"
  inv_usernameOrEmail :: "string list"

record moveTeam =
  move_id :: int
  newSlug :: string
  shouldMove :: bool

record createTeamsInput =
  teamNames :: "string list"
  orgId :: int
  moveTeams :: "moveTeam list"

text \<open>
  What the finalizer reads and writes outside itself: the organizations and the stored
  organization id of each onboarding record (the two tables the claims are about), and
  a log of what each of the other collaborators was asked to do.
\<close>

record world =
  organizations :: "organization list"
  onboardingOrganizationId :: "int \<Rightarrow> int option"
  domains :: "(string \<times> bool) list"
  sentEmails :: "organizationCreationEmail list"
  availabilityOwners :: "int list"
  invitations :: "invitation list"
  createTeamsCalls :: "createTeamsInput list"

text \<open>
  The external calls of one invocation. Every one is awaited and may reject; which of them
  reject in an invocation, and what the read-only collaborators answer, is the
  environment \<open>env\<close> of that invocation. \<open>GetTranslation\<close> is called at two places and
  carries the name of the calling function.
\<close>

datatype call =
    FindUserToBeOrgOwner
  | GetTranslation string
  | SetupDomain
  | FindById
  | FindBySlug
  | AssertCanCreateOrg
  | CreateWithExistingUserAsOwner
  | SendOrganizationCreationEmail
  | AvailabilityCreateMany
  | SetOrganizationId
  | InviteMembersWithNoInviterPermissionCheck
  | CreateTeamsHandler
  | SetSlug

record env =
  rejects :: "call \<Rightarrow> bool"
  findUserToBeOrgOwner :: "string \<Rightarrow> orgOwner option"
  slugConflictType :: "string option"
  ownerProfileUsername :: string

subsection \<open>The collaborators\<close>

text \<open>
  Modelled from the spec: the repository layer (\<open>OrganizationRepository\<close>,
  \<open>OrganizationOnboardingRepository\<close>) is not part of the source at hand. The spec describes
  it as organization lookups and mutations over a relational database: a lookup by id or
  by slug returns the stored organization or \<open>null\<close>; creation stores a new organization
  under a fresh database-generated id; \<open>setOrganizationId\<close> records the id on the onboarding
  record; \<open>setSlug\<close> sets the slug of the organization with the given id.
\<close>

definition findById :: "world \<Rightarrow> int \<Rightarrow> organization option" where
  "findById w i = find (\<lambda>organization. org_id organization = i) (organizations w)"

definition findBySlug :: "world \<Rightarrow> string \<Rightarrow> organization option" where
  "findBySlug w slug = find (\<lambda>organization. org_slug organization = Some slug) (organizations w)"

definition nextOrganizationId :: "world \<Rightarrow> int" where
  "nextOrganizationId w = fold max (map org_id (organizations w)) 0 + 1"

definition createWithExistingUserAsOwner ::
  "env \<Rightarrow> organizationData \<Rightarrow> string option \<Rightarrow> world \<Rightarrow> (organization \<times> string) \<times> world" where
  "createWithExistingUserAsOwner e orgData slug w =
     (let created = \<lparr> org_id = nextOrganizationId w, org_name = od_name orgData,
                       org_slug = slug, org_isPlatform = od_isPlatform orgData \<rparr>
      in ((created, ownerProfileUsername e), w\<lparr> organizations := organizations w @ [created] \<rparr>))"

definition setOrganizationId :: "int \<Rightarrow> int \<Rightarrow> world \<Rightarrow> unit \<times> world" where
  "setOrganizationId onboardingId organizationId w =
     ((), w\<lparr> onboardingOrganizationId := (onboardingOrganizationId w)(onboardingId := Some organizationId) \<rparr>)"

definition setSlug :: "int \<Rightarrow> string \<Rightarrow> world \<Rightarrow> unit \<times> world" where
  "setSlug i slug w =
     ((), w\<lparr> organizations :=
               map (\<lambda>organization. if org_id organization = i
                      then organization\<lparr> org_slug := Some slug \<rparr> else organization)
                   (organizations w) \<rparr>)"

text \<open>
  Modelled from the spec: domain provisioning, the creation e-mail, the availability rows,
  the invitation handler and the team handler are external collaborators too. Of each only
  the call is kept, in a list of its own.
\<close>

definition setupDomain :: "string \<Rightarrow> bool \<Rightarrow> world \<Rightarrow> unit \<times> world" where
  "setupDomain slug isPlatform w = ((), w\<lparr> domains := domains w @ [(slug, isPlatform)] \<rparr>)"

definition sendOrganizationCreationEmail :: "organizationCreationEmail \<Rightarrow> world \<Rightarrow> unit \<times> world" where
  "sendOrganizationCreationEmail mail w = ((), w\<lparr> sentEmails := sentEmails w @ [mail] \<rparr>)"

definition availabilityCreateMany :: "int \<Rightarrow> world \<Rightarrow> unit \<times> world" where
  "availabilityCreateMany userId w = ((), w\<lparr> availabilityOwners := availabilityOwners w @ [userId] \<rparr>)"

definition inviteMembersWithNoInviterPermissionCheck :: "invitation \<Rightarrow> world \<Rightarrow> unit \<times> world" where
  "inviteMembersWithNoInviterPermissionCheck i w = ((), w\<lparr> invitations := invitations w @ [i] \<rparr>)"

definition createTeamsHandler :: "createTeamsInput \<Rightarrow> world \<Rightarrow> unit \<times> world" where
  "createTeamsHandler i w = ((), w\<lparr> createTeamsCalls := createTeamsCalls w @ [i] \<rparr>)"

subsection \<open>The finalizer\<close>

text \<open>
  \<open>orgData.id ? ... : ...\<close> and \<open>!organization.slug\<close>: what JavaScript takes for true. A
  number is true when it is neither \<open>null\<close> nor \<open>0\<close>, a string when it is neither \<open>null\<close>
  nor empty.
\<close>

definition truthyNumber :: "int option \<Rightarrow> bool" where
  "truthyNumber v = (case v of None \<Rightarrow> False | Some n \<Rightarrow> n \<noteq> 0)"

definition truthyString :: "string option \<Rightarrow> bool" where
  "truthyString v = (case v of None \<Rightarrow> False | Some str \<Rightarrow> str \<noteq> [])"

text \<open>
  \<open>createOrganizationWithOwner\<close>. The \<open>catch\<close> of its \<open>try\<close> logs and throws the error
  again; the calls of \<open>log.debug\<close> and \<open>log.error\<close> are left out. The id is recorded on the
  onboarding record after the \<open>try\<close>, so not when the e-mail or the availability rows
  fail.
\<close>

definition createOrganizationWithOwner ::
  "env \<Rightarrow> orgOwner \<Rightarrow> int \<Rightarrow> organizationData \<Rightarrow> (world, organization) action" where
  "createOrganizationWithOwner e owner organizationOnboardingId orgData =
     await (external (rejects e (GetTranslation ''createOrganizationWithOwner'')) (\<lambda>w. ((), w)))
       (\<lambda>orgOwnerTranslation.
     await (if truthyNumber (od_id orgData)
            then external (rejects e FindById) (\<lambda>w. (findById w (the (od_id orgData)), w))
            else external (rejects e FindBySlug) (\<lambda>w. (findBySlug w (od_slug orgData), w)))
       (\<lambda>found.
     case found of
       Some existing \<Rightarrow> returnA existing
     | None \<Rightarrow>
         await (external (rejects e AssertCanCreateOrg) (\<lambda>w. (slugConflictType e, w)))
           (\<lambda>conflict.
         let canSetSlug = (if conflict = Some ''teamUserIsMemberOfExists'' then False else True);
             nonOrgUsername = (case owner_username owner of Some u \<Rightarrow> u | None \<Rightarrow> [])
         in
         await (tryCatch
                 (await (external (rejects e CreateWithExistingUserAsOwner)
                           (createWithExistingUserAsOwner e orgData
                              (if canSetSlug then Some (od_slug orgData) else None)))
                    (\<lambda>(created, ownerProfile).
                  await (if \<not> od_isPlatform orgData
                         then external (rejects e SendOrganizationCreationEmail)
                                (sendOrganizationCreationEmail
                                   \<lparr> mail_to = owner_email owner, mail_orgName = org_name created,
                                     mail_orgSlug = od_slug orgData, ownerNewUsername = ownerProfile,
                                     ownerOldUsername = nonOrgUsername \<rparr>)
                         else returnA ())
                    (\<lambda>_.
                  await (external (rejects e AvailabilityCreateMany)
                           (availabilityCreateMany (owner_id owner)))
                    (\<lambda>_. returnA created))))
                 (\<lambda>error. throwA error))
           (\<lambda>created.
         await (external (rejects e SetOrganizationId)
                  (setOrganizationId organizationOnboardingId (org_id created)))
           (\<lambda>_. returnA created)))))"

definition createOrMoveTeamsToOrganization ::
  "env \<Rightarrow> teamData list \<Rightarrow> orgOwner \<Rightarrow> int \<Rightarrow> (world, unit) action" where
  "createOrMoveTeamsToOrganization e teams owner organizationId =
     (if length teams = 0 then returnA ()
      else
        (let teamsToCreate = map team_name (filter (\<lambda>t. \<not> isBeingMigrated t) teams);
             teamsToMove = map (\<lambda>t. \<lparr> move_id = team_id t, newSlug = team_slug t, shouldMove = True \<rparr>)
                             (filter (\<lambda>t. isBeingMigrated t) teams)
         in external (rejects e CreateTeamsHandler)
              (createTeamsHandler
                 \<lparr> teamNames = teamsToCreate, orgId = organizationId, moveTeams = teamsToMove \<rparr>)))"

definition inviteMembers :: "env \<Rightarrow> invitedMember list \<Rightarrow> organization \<Rightarrow> (world, unit) action" where
  "inviteMembers e invitedMembers organization =
     (if length invitedMembers = 0 then returnA ()
      else external (rejects e InviteMembersWithNoInviterPermissionCheck)
             (inviteMembersWithNoInviterPermissionCheck
                \<lparr> inv_teamId = org_id organization,
                  inv_orgSlug = (if truthyString (org_slug organization) then org_slug organization else None),
                  inv_usernameOrEmail = map member_email invitedMembers \<rparr>))"

text \<open>\<open>str.split(sep)[1]\<close>: the second piece, \<open>undefined\<close> when there is none.\<close>

fun splitOn :: "char \<Rightarrow> string \<Rightarrow> string list" where
  "splitOn sep [] = [[]]"
| "splitOn sep (c # cs) =
     (if c = sep then [] # splitOn sep cs
      else (case splitOn sep cs of [] \<Rightarrow> [[c]] | piece # pieces \<Rightarrow> (c # piece) # pieces))"

definition secondPiece :: "string list \<Rightarrow> string option" where
  "secondPiece pieces = (case pieces of _ # p # _ \<Rightarrow> Some p | _ \<Rightarrow> None)"

text \<open>
  \<open>createOrganizationFromOnboarding\<close>. The \<open>orgData\<close> it builds takes every field from the
  onboarding record, except \<open>isPlatform\<close>, which is the constant \<open>false\<close>; the flag of the
  record goes to \<open>setupDomain\<close> only.
\<close>

definition createOrganizationFromOnboarding ::
  "env \<Rightarrow> organizationOnboarding \<Rightarrow> string \<Rightarrow> (world, organization \<times> orgOwner) action" where
  "createOrganizationFromOnboarding e organizationOnboarding paymentSubscriptionId =
     await (external (rejects e FindUserToBeOrgOwner)
              (\<lambda>w. (findUserToBeOrgOwner e (orgOwnerEmail organizationOnboarding), w)))
       (\<lambda>foundOwner.
     case foundOwner of
       None \<Rightarrow> throwA (Error (''Owner not found with email: '' @ orgOwnerEmail organizationOnboarding))
     | Some owner \<Rightarrow>
         await (external (rejects e (GetTranslation ''createOrganizationFromOnboarding'')) (\<lambda>w. ((), w)))
           (\<lambda>orgOwnerTranslation.
         await (external (rejects e SetupDomain)
                  (setupDomain (onb_slug organizationOnboarding) (onb_isPlatform organizationOnboarding)))
           (\<lambda>_.
         await (createOrganizationWithOwner e owner (onb_id organizationOnboarding)
                  \<lparr> od_id = onb_organizationId organizationOnboarding,
                    od_name = onb_name organizationOnboarding,
                    od_slug = onb_slug organizationOnboarding,
                    isOrganizationConfigured = True,
                    isOrganizationAdminReviewed = True,
                    autoAcceptEmail = secondPiece (splitOn CHR ''@'' (orgOwnerEmail organizationOnboarding)),
                    od_seats = onb_seats organizationOnboarding,
                    od_pricePerSeat = onb_pricePerSeat organizationOnboarding,
                    od_isPlatform = False,
                    logoUrl = onb_logo organizationOnboarding,
                    od_bio = onb_bio organizationOnboarding,
                    od_billingPeriod = onb_billingPeriod organizationOnboarding,
                    od_paymentSubscriptionId = paymentSubscriptionId \<rparr>)
           (\<lambda>organization.
         case onb_invitedMembers organizationOnboarding of
           None \<Rightarrow> throwA (ZodError ''invitedMembers'')
         | Some invitedMembers \<Rightarrow>
        (case onb_teams organizationOnboarding of
           None \<Rightarrow> throwA (ZodError ''teams'')
         | Some teams \<Rightarrow>
         await (inviteMembers e invitedMembers organization)
           (\<lambda>_.
         await (createOrMoveTeamsToOrganization e teams owner (org_id organization))
           (\<lambda>_.
         await (if \<not> truthyString (org_slug organization)
                then external (rejects e SetSlug) (setSlug (org_id organization) (onb_slug organizationOnboarding))
                else returnA ())
           (\<lambda>_. returnA (organization, owner)))))))))"

section \<open>Cancelling the seat of an attendee\<close>

subsection \<open>Data\<close>

record attendee =
  attendee_id :: int
  attendee_email :: string
  attendee_locale :: "string option"

record seatReference =
  referenceUid :: string
  attendeeId :: int

record bookingReference =
  ref_uid :: string
  ref_type :: string
  credentialId :: "int option"
  externalCalendarId :: "string option"

record workflowReminder =
  reminder_id :: int
  seatReferenceId :: "string option"

record booking =
  booking_userId :: "int option"
  booking_attendees :: "attendee list"
  seatsReferences :: "seatReference list"
  references :: "bookingReference list"
  workflowReminders :: "workflowReminder list"
  smsReminderNumber :: "string option"

record webhook =
  webhook_id :: string
  subscriberUrl :: string
  payloadTemplate :: "string option"
  appId :: "string option"
  secret :: "string option"

text \<open>The calendar event, as far as the handler reads it: the e-mail addresses of its attendees.\<close>

record calendarEvent =
  evt_uid :: "string option"
  evt_bookingId :: "int option"
  evt_attendees :: "string list"

text \<open>
  The request: \<open>seatReferenceUid\<close> is what \<open>bookingCancelAttendeeSeatSchema.safeParse\<close>
  makes of the body (\<open>None\<close> when it does not parse), \<open>bookingToDelete\<close> may be absent.
\<close>

record customRequest =
  seatReferenceUid :: "string option"
  bookingToDelete :: "booking option"

text \<open>\<open>return;\<close> and \<open>return { success: true }\<close>.\<close>

datatype cancelResult = Undefined | Success

text \<open>
  The external calls of the handler, with the argument that tells them apart. The world
  around the handler is the list of the calls it has made (a call is listed whether it
  fails or not), what \<open>logger.error\<close> has written, the status code set on the request,
  and the calls whose promise has rejected with no handler attached to it.
\<close>

datatype seatCall =
    BookingSeatDelete string
  | AttendeeDelete int
  | CredentialFindUnique int
  | GetCalendar int
  | UpdateMeeting string
  | UpdateEvent string
  | GetAttendeeTranslation
  | SendCancelledSeatEmailsAndSMS int
  | GetPayloadTranslation
  | SendPayload string
  | DeleteAllWorkflowReminders "int list"

datatype logEntry = WebhookError string

record seatWorld =
  calls :: "seatCall list"
  errorLog :: "logEntry list"
  statusCode :: "int option"
  unhandledRejections :: "seatCall list"

text \<open>
  The environment of one invocation: which calls reject, when the promise of a call that
  is not awaited at once rejects (\<open>rejectsDuring e p c\<close>: the promise of the call \<open>p\<close>,
  if it rejects, does so while the handler is suspended at the awaited call \<open>c\<close>),
  whether a credential is found for an id, and whether \<open>getCalendar\<close> gives a calendar
  for it.
\<close>

record seatEnv =
  seatRejects :: "seatCall \<Rightarrow> bool"
  rejectsDuring :: "seatCall \<Rightarrow> seatCall \<Rightarrow> bool"
  credentialExists :: "int \<Rightarrow> bool"
  calendarExists :: "int \<Rightarrow> bool"

subsection \<open>Calls\<close>

text \<open>A call that is awaited where it is made: a rejection is thrown.\<close>

definition perform :: "seatEnv \<Rightarrow> seatCall \<Rightarrow> (seatWorld, unit) action" where
  "perform e c w =
     (if seatRejects e c then (Inl (Rejected ''external call''), w\<lparr> calls := calls w @ [c] \<rparr>)
      else (Inr (), w\<lparr> calls := calls w @ [c] \<rparr>))"

text \<open>
  A call that is made and whose promise is kept for later: nothing is thrown here. The
  promise is known by its call; it settles to the outcome the environment gives the call.
\<close>

type_synonym promise = seatCall

definition start :: "seatCall \<Rightarrow> (seatWorld, promise) action" where
  "start c w = (Inr c, w\<lparr> calls := calls w @ [c] \<rparr>)"

definition outcome :: "seatEnv \<Rightarrow> promise \<Rightarrow> error + unit" where
  "outcome e p = (if seatRejects e p then Inl (Rejected ''external call'') else Inr ())"

text \<open>
  An awaited call made while promises are pending to which no handler is attached yet.
  The function is suspended at the call. A pending promise that rejects during the
  suspension is an unhandled rejection, and the run stops there. When the awaited call
  itself rejects, the function throws and the pending promises never get a handler: each
  of them that rejects is an unhandled rejection, after the function has thrown.
\<close>

definition performPending :: "seatEnv \<Rightarrow> promise list \<Rightarrow> seatCall \<Rightarrow> (seatWorld, unit) action" where
  "performPending e pending c w =
     (let early = filter (\<lambda>p. seatRejects e p \<and> rejectsDuring e p c) pending;
          late = filter (\<lambda>p. seatRejects e p) pending
      in if early \<noteq> []
         then (Inl UnhandledRejection,
               w\<lparr> calls := calls w @ [c], unhandledRejections := unhandledRejections w @ early \<rparr>)
         else if seatRejects e c
         then (Inl (Rejected ''external call''),
               w\<lparr> calls := calls w @ [c], unhandledRejections := unhandledRejections w @ late \<rparr>)
         else (Inr (), w\<lparr> calls := calls w @ [c] \<rparr>))"

definition loggerError :: "logEntry \<Rightarrow> (seatWorld, unit) action" where
  "loggerError entry w = (Inr (), w\<lparr> errorLog := errorLog w @ [entry] \<rparr>)"

definition setStatusCode :: "int \<Rightarrow> (seatWorld, unit) action" where
  "setStatusCode code w = (Inr (), w\<lparr> statusCode := Some code \<rparr>)"

text \<open>\<open>str.includes(part)\<close>.\<close>

fun startsWith :: "string \<Rightarrow> string \<Rightarrow> bool" where
  "startsWith str [] = True"
| "startsWith [] (p # ps) = False"
| "startsWith (c # cs) (p # ps) = (c = p \<and> startsWith cs ps)"

fun includesStr :: "string \<Rightarrow> string \<Rightarrow> bool" where
  "includesStr [] part = (part = [])"
| "includesStr (c # cs) part = (startsWith (c # cs) part \<or> includesStr cs part)"

subsection \<open>The handler\<close>

text \<open>
  The body of \<open>for (const reference of bookingToDelete.references)\<close>: the promises of
  \<open>updateMeeting\<close> and \<open>calendar.updateEvent\<close> are pushed onto \<open>integrationsToUpdate\<close>,
  with no handler until \<open>Promise.all\<close> after the loop; the credential and the calendar are
  awaited in the loop, while the promises pushed so far are pending.
\<close>

definition updateIntegration ::
  "seatEnv \<Rightarrow> calendarEvent \<Rightarrow> attendee \<Rightarrow> bookingReference \<Rightarrow> promise list
     \<Rightarrow> (seatWorld, promise list) action" where
  "updateIntegration e evt removed reference integrationsToUpdate =
     (if truthyNumber (credentialId reference) then
        await (performPending e integrationsToUpdate
                 (CredentialFindUnique (the (credentialId reference))))
          (\<lambda>_.
        if credentialExists e (the (credentialId reference)) then
          await (if includesStr (ref_type reference) ''_video''
                 then await (start (UpdateMeeting (ref_uid reference)))
                        (\<lambda>promise. returnA (integrationsToUpdate @ [promise]))
                 else returnA integrationsToUpdate)
            (\<lambda>pushed.
          if includesStr (ref_type reference) ''_calendar'' then
            await (performPending e pushed (GetCalendar (the (credentialId reference))))
              (\<lambda>_.
            if calendarExists e (the (credentialId reference))
            then await (start (UpdateEvent (ref_uid reference)))
                   (\<lambda>promise. returnA (pushed @ [promise]))
            else returnA pushed)
          else returnA pushed)
        else returnA integrationsToUpdate)
      else returnA integrationsToUpdate)"

text \<open>
  \<open>webhooks.map((webhook) => sendPayload(...).catch((e) => { logger.error(...) }))\<close>: the
  call is made for every webhook and the handler is attached at once; a rejection is
  logged and the promise of the webhook resolves all the same.
\<close>

definition sendPayloadCaught ::
  "seatEnv \<Rightarrow> webhook \<Rightarrow> (error + unit) list \<Rightarrow> (seatWorld, (error + unit) list) action" where
  "sendPayloadCaught e hook promises =
     await (start (SendPayload (subscriberUrl hook)))
       (\<lambda>promise.
     case outcome e promise of
       Inl err \<Rightarrow> await (loggerError (WebhookError (subscriberUrl hook)))
                    (\<lambda>_. returnA (promises @ [Inr ()]))
     | Inr _ \<Rightarrow> returnA (promises @ [Inr ()]))"

text \<open>
  The block \<open>if (attendee) { ... }\<close>: the integrations of the booking are updated, the
  promises are awaited together inside \<open>try\<close> with an empty \<open>catch\<close>, and the removed
  attendee is notified. \<open>Promise.all\<close> attaches its handlers to all the promises as soon as
  it is called, so from there on a rejection is handled.
\<close>

definition updateIntegrationsAndNotify ::
  "seatEnv \<Rightarrow> calendarEvent \<Rightarrow> bookingReference list \<Rightarrow> attendee \<Rightarrow> (seatWorld, unit) action" where
  "updateIntegrationsAndNotify e evt bookingReferences removed =
     await (forEachAwait (updateIntegration e evt removed) bookingReferences [])
       (\<lambda>integrationsToUpdate.
     await (tryCatch (await (awaitAll (map (outcome e) integrationsToUpdate)) (\<lambda>_. returnA ()))
              (\<lambda>error. returnA ()))
       (\<lambda>_.
     await (perform e GetAttendeeTranslation)
       (\<lambda>tAttendees.
     perform e (SendCancelledSeatEmailsAndSMS (attendee_id removed)))))"

text \<open>The webhook block: \<open>const promises = webhooks.map(...); await Promise.all(promises)\<close>.\<close>

definition sendWebhookPayloads :: "seatEnv \<Rightarrow> webhook list \<Rightarrow> (seatWorld, unit list) action" where
  "sendWebhookPayloads e webhooks =
     await (forEachAwait (sendPayloadCaught e) webhooks [])
       (\<lambda>promises. awaitAll promises)"

definition cancelAttendeeSeat ::
  "seatEnv \<Rightarrow> customRequest \<Rightarrow> webhook list \<Rightarrow> calendarEvent \<Rightarrow> (seatWorld, cancelResult) action" where
  "cancelAttendeeSeat e req webhooks evt =
     (case seatReferenceUid req of
        None \<Rightarrow> returnA Undefined
      | Some uid \<Rightarrow>
     (case bookingToDelete req of
        None \<Rightarrow> returnA Undefined
      | Some toDelete \<Rightarrow>
          if length (booking_attendees toDelete) = 0 \<or> length (booking_attendees toDelete) < 2
          then returnA Undefined
          else if \<not> truthyNumber (booking_userId toDelete)
          then throwA (HttpError 400 ''User not found'')
          else
     (case find (\<lambda>reference. referenceUid reference = uid) (seatsReferences toDelete) of
        None \<Rightarrow> throwA (HttpError 400 ''User not a part of this booking'')
      | Some seatRef \<Rightarrow>
          await (start (BookingSeatDelete uid))
            (\<lambda>seatDeleted.
          await (start (AttendeeDelete (attendeeId seatRef)))
            (\<lambda>attendeeDeleted.
          await (awaitAll [outcome e seatDeleted, outcome e attendeeDeleted])
            (\<lambda>_.
          await (setStatusCode 200)
            (\<lambda>_.
          let removed = find (\<lambda>a. attendee_id a = attendeeId seatRef) (booking_attendees toDelete)
          in
          await (case removed of
                   None \<Rightarrow> returnA ()
                 | Some a \<Rightarrow> updateIntegrationsAndNotify e evt (references toDelete) a)
            (\<lambda>_.
          await (case removed of
                   None \<Rightarrow> returnA ()
                 | Some a \<Rightarrow> perform e GetPayloadTranslation)
            (\<lambda>_.
          await (sendWebhookPayloads e webhooks)
            (\<lambda>_.
          let workflowRemindersForAttendee =
                filter (\<lambda>reminder. seatReferenceId reminder = Some uid) (workflowReminders toDelete)
          in
          await (perform e (DeleteAllWorkflowReminders (map reminder_id workflowRemindersForAttendee)))
            (\<lambda>_. returnA Success)))))))))))"

section \<open>Notions of the specification\<close>

text \<open>
  The lookup of an existing organization as the specification words it: by the stored
  organization id of the onboarding record when it is set, by the slug otherwise. The code
  decides between the two with the truth value of the id, see \<open>createOrganizationWithOwner\<close>.
\<close>

definition existingOrganization :: "world \<Rightarrow> organizationOnboarding \<Rightarrow> organization option" where
  "existingOrganization w organizationOnboarding =
     (case onb_organizationId organizationOnboarding of
        Some i \<Rightarrow> findById w i
      | None \<Rightarrow> findBySlug w (onb_slug organizationOnboarding))"


section \<open>Example inputs\<close>

subsection \<open>Hosts and ranking data\<close>

definition exampleHost :: "int \<Rightarrow> baseHost" where
  "exampleHost userId =
     \<lparr> isFixed = False, createdAt = 0, priority = None, weight = None, weightAdjustment = None,
       user = \<lparr> user_id = userId, email = ''host@example.com'' \<rparr> \<rparr>"

definition exampleEventType :: "bool \<Rightarrow> eventType" where
  "exampleEventType rrWeights = \<lparr> eventType_id = 1, isRRWeightsEnabled = rrWeights, team = None \<rparr>"

text \<open>A ranking function that answers with fixed data and counts how often it is asked.\<close>

definition fixedRanking :: "perUserData \<Rightarrow> nat getOrderedListOfLuckyUsers" where
  "fixedRanking perUserData availableUsers eventType allRRHosts asked = (Inr perUserData, Suc asked)"

text \<open>Booking counts 2, 5 and 8 for the hosts 1, 2 and 3.\<close>

definition unweightedExample :: perUserData where
  "unweightedExample =
     \<lparr> bookingsCount = [(1, Num 2), (2, Num 5), (3, Num 8)],
       bookingShortfalls = None, calibrations = None, weights = None \<rparr>"

text \<open>
  Two hosts of equal weight, with shortfalls \<open>-5\<close> and \<open>-2\<close>; with a lead threshold of 6
  each of them is allowed a lead of 3.
\<close>

definition weightedExample :: perUserData where
  "weightedExample =
     \<lparr> bookingsCount = [(1, Num 7), (2, Num 4)],
       bookingShortfalls = Some [(1, Num (- 5)), (2, Num (- 2))],
       calibrations = Some [(1, Num 0), (2, Num 0)],
       weights = Some [(1, Num 100), (2, Num 100)] \<rparr>"

text \<open>
  The weighted example, where the ranking data have no booking count for the host 2.
\<close>

definition missingCountExample :: perUserData where
  "missingCountExample = weightedExample\<lparr> bookingsCount := [(1, Num 7)] \<rparr>"

text \<open>
  Weights 1 and 48, used with a lead threshold of 49: the exact allowed lead of the host 1
  is 1, the one computed in doubles is \<open>49 * (1 / 49) = 1 - 2^-53\<close>.
\<close>

definition roundedLeadExample :: perUserData where
  "roundedLeadExample =
     \<lparr> bookingsCount = [(1, Num 1), (2, Num 48)],
       bookingShortfalls = Some [(1, Num (- 1)), (2, Num 0)],
       calibrations = Some [(1, Num 0), (2, Num 0)],
       weights = Some [(1, Num 1), (2, Num 48)] \<rparr>"

text \<open>
  Booking counts \<open>2^53\<close> and \<open>2^53 + 4\<close>, used with a lead threshold of 3: the sum
  \<open>2^53 + 3\<close> is not a double and rounds to \<open>2^53 + 4\<close>.
\<close>

definition largeCountsExample :: perUserData where
  "largeCountsExample =
     \<lparr> bookingsCount = [(1, Num 9007199254740992), (2, Num 9007199254740996)],
       bookingShortfalls = None, calibrations = None, weights = None \<rparr>"

subsection \<open>An onboarding\<close>

definition emptyWorld :: world where
  "emptyWorld =
     \<lparr> organizations = [], onboardingOrganizationId = (\<lambda>_. None), domains = [], sentEmails = [],
       availabilityOwners = [], invitations = [], createTeamsCalls = [] \<rparr>"

definition exampleOwner :: orgOwner where
  "exampleOwner =
     \<lparr> owner_id = 7, owner_email = ''owner@acme.com'', owner_username = Some ''owner'',
       owner_locale = None \<rparr>"

text \<open>An environment in which no call rejects; the argument is the slug conflict found.\<close>

definition exampleEnv :: "string option \<Rightarrow> env" where
  "exampleEnv conflict =
     \<lparr> rejects = (\<lambda>_. False),
       findUserToBeOrgOwner = (\<lambda>address. if address = ''owner@acme.com'' then Some exampleOwner else None),
       slugConflictType = conflict,
       ownerProfileUsername = ''owner'' \<rparr>"

definition exampleOnboarding :: "int option \<Rightarrow> bool \<Rightarrow> organizationOnboarding" where
  "exampleOnboarding organizationId platform =
     \<lparr> onb_id = 1, onb_organizationId = organizationId, onb_name = ''Acme'', onb_slug = ''acme'',
       orgOwnerEmail = ''owner@acme.com'', onb_seats = Some 5, onb_pricePerSeat = Some (Num 20),
       onb_billingPeriod = Some MONTHLY, onb_invitedMembers = Some [], onb_teams = Some [],
       onb_isPlatform = platform, onb_logo = None, onb_bio = None \<rparr>"

definition exampleOrgData :: organizationData where
  "exampleOrgData =
     \<lparr> od_id = None, od_name = ''Acme'', od_slug = ''acme'', isOrganizationConfigured = True,
       isOrganizationAdminReviewed = True, autoAcceptEmail = Some ''acme.com'', od_seats = Some 5,
       od_pricePerSeat = Some (Num 20), od_isPlatform = False, logoUrl = None, od_bio = None,
       od_billingPeriod = Some MONTHLY, od_paymentSubscriptionId = ''sub_1'' \<rparr>"

definition acmeOrganization :: "string option \<Rightarrow> organization" where
  "acmeOrganization slug =
     \<lparr> org_id = 1, org_name = ''Acme'', org_slug = slug, org_isPlatform = False \<rparr>"

definition acmeCreationEmail :: organizationCreationEmail where
  "acmeCreationEmail =
     \<lparr> mail_to = ''owner@acme.com'', mail_orgName = ''Acme'', mail_orgSlug = ''acme'',
       ownerNewUsername = ''owner'', ownerOldUsername = ''owner'' \<rparr>"

text \<open>The world after the first successful run of the finalizer on the empty world.\<close>

definition worldWithAcme :: "bool \<Rightarrow> world" where
  "worldWithAcme platform =
     \<lparr> organizations = [acmeOrganization (Some ''acme'')],
       onboardingOrganizationId = (\<lambda>_. None)(1 := Some 1),
       domains = [(''acme'', platform)], sentEmails = [acmeCreationEmail],
       availabilityOwners = [7], invitations = [], createTeamsCalls = [] \<rparr>"

text \<open>
  A first run in which the creation e-mail is rejected, the slug being in conflict with a
  team of the owner: the environment, and the world the run leaves.
\<close>

definition failedEmailEnv :: env where
  "failedEmailEnv =
     (exampleEnv (Some ''teamUserIsMemberOfExists''))
       \<lparr> rejects := (\<lambda>c. c = SendOrganizationCreationEmail) \<rparr>"

definition worldAfterFailedEmail :: world where
  "worldAfterFailedEmail =
     \<lparr> organizations = [acmeOrganization None], onboardingOrganizationId = (\<lambda>_. None),
       domains = [(''acme'', False)], sentEmails = [], availabilityOwners = [],
       invitations = [], createTeamsCalls = [] \<rparr>"

text \<open>The world after the retry: a second organization, and the first one left behind.\<close>

definition worldAfterRetry :: world where
  "worldAfterRetry =
     \<lparr> organizations =
         [acmeOrganization None,
          \<lparr> org_id = 2, org_name = ''Acme'', org_slug = Some ''acme'', org_isPlatform = False \<rparr>],
       onboardingOrganizationId = (\<lambda>_. None)(1 := Some 2),
       domains = [(''acme'', False), (''acme'', False)], sentEmails = [acmeCreationEmail],
       availabilityOwners = [7], invitations = [], createTeamsCalls = [] \<rparr>"

subsection \<open>A seat cancellation\<close>

definition exampleBooking :: booking where
  "exampleBooking =
     \<lparr> booking_userId = Some 7,
       booking_attendees =
         [\<lparr> attendee_id = 1, attendee_email = ''ann@example.com'', attendee_locale = None \<rparr>,
          \<lparr> attendee_id = 2, attendee_email = ''bob@example.com'', attendee_locale = None \<rparr>],
       seatsReferences = [\<lparr> referenceUid = ''seat-1'', attendeeId = 1 \<rparr>],
       references =
         [\<lparr> ref_uid = ''meet-1'', ref_type = ''daily_video'', credentialId = Some 3,
            externalCalendarId = None \<rparr>,
          \<lparr> ref_uid = ''cal-1'', ref_type = ''google_calendar'', credentialId = Some 4,
            externalCalendarId = None \<rparr>],
       workflowReminders = [\<lparr> reminder_id = 9, seatReferenceId = Some ''seat-1'' \<rparr>],
       smsReminderNumber = None \<rparr>"

definition exampleRequest :: customRequest where
  "exampleRequest = \<lparr> seatReferenceUid = Some ''seat-1'', bookingToDelete = Some exampleBooking \<rparr>"

definition exampleWebhooks :: "webhook list" where
  "exampleWebhooks =
     [\<lparr> webhook_id = ''wh-1'', subscriberUrl = ''https://a.example/hook'', payloadTemplate = None,
        appId = None, secret = None \<rparr>,
      \<lparr> webhook_id = ''wh-2'', subscriberUrl = ''https://b.example/hook'', payloadTemplate = None,
        appId = None, secret = None \<rparr>]"

definition exampleEvent :: calendarEvent where
  "exampleEvent =
     \<lparr> evt_uid = Some ''booking-1'', evt_bookingId = Some 11,
       evt_attendees = [''ann@example.com'', ''bob@example.com''] \<rparr>"

text \<open>
  An environment in which exactly the listed calls reject, none of them before
  \<open>Promise.all\<close> is reached.
\<close>

definition failing :: "seatCall list \<Rightarrow> seatEnv" where
  "failing rejected =
     \<lparr> seatRejects = (\<lambda>c. c \<in> set rejected), rejectsDuring = (\<lambda>p c. False),
       credentialExists = (\<lambda>_. True), calendarExists = (\<lambda>_. True) \<rparr>"

text \<open>
  An environment in which \<open>updateMeeting\<close> rejects while the handler awaits the credential
  of the next reference.
\<close>

definition failingEarly :: seatEnv where
  "failingEarly =
     \<lparr> seatRejects = (\<lambda>c. c = UpdateMeeting ''meet-1''),
       rejectsDuring = (\<lambda>p c. p = UpdateMeeting ''meet-1'' \<and> c = CredentialFindUnique 4),
       credentialExists = (\<lambda>_. True), calendarExists = (\<lambda>_. True) \<rparr>"

definition emptySeatWorld :: seatWorld where
  "emptySeatWorld = \<lparr> calls = [], errorLog = [], statusCode = None, unhandledRejections = [] \<rparr>"

section \<open>Properties of the lead-threshold host filter\<close>

subsection \<open>The loops\<close>

text \<open>
  Each loop keeps the property names that pass its test, in the order it visits them.
\<close>

lemma withWeightsLoop_filter:
  "withWeightsLoop p m t ks acc =
     acc @ filter (\<lambda>k. \<not> js_gt (js_neg (numberAt (bookingShortfallsW p) k))
                              (js_mul m (js_div (numberAt (weightsW p) k) t))) ks"
  by (induction ks arbitrary: acc) (simp_all add: Let_def)

lemma withoutWeightsLoop_filter:
  "withoutWeightsLoop p m mn ks acc =
     acc @ filter (\<lambda>k. js_le (numberAt (bookingsCount p) k) (js_add mn m)) ks"
  by (induction ks arbitrary: acc) (simp_all add: Let_def)

subsection \<open>Rounding to a double\<close>

text \<open>
  Every integer of magnitude at most \<open>2^53\<close> is a double: rounding leaves it as it is. So
  sums, products and quotients whose exact value is such an integer are exact.
\<close>

lemma roundHalfEven_of_int: "roundHalfEven (of_int k) = k"
  by (simp add: roundHalfEven_def)

lemma pow2_nonneg: "0 \<le> k \<Longrightarrow> pow2 k = 2 ^ nat k"
  by (simp add: pow2_def)

lemma pow2_pos: "0 < pow2 k"
  by (simp add: pow2_def)

lemma roundDouble_pos_int:
  assumes "0 < m" and "m \<le> 2 ^ 53"
  shows "roundDouble (of_int m) = Num (of_int m)"
proof -
  define e where "e = bitlen m - 1"
  from assms(1) have b: "2 ^ nat e \<le> m"
    using bitlen_bounds [of m] by (simp add: e_def)
  have e0: "0 \<le> e"
    using assms(1) by (simp add: e_def bitlen_alt_def)
  have e53: "e \<le> 53"
  proof (rule ccontr)
    assume "\<not> e \<le> 53"
    then have "54 \<le> nat e" by simp
    then have "(2::int) ^ 54 \<le> 2 ^ nat e" by (rule power_increasing) simp
    with b assms(2) show False by simp
  qed
  have fl: "floorLog2 (of_int m) = e"
    using assms(1) by (simp add: floorLog2_def e_def)
  have mx: "max e (- 1022) = e" using e0 by simp
  have quot: "\<exists>k::int. (of_int m :: rat) / pow2 (e - 52) = of_int k"
  proof (cases "e \<le> 52")
    case True
    then have "pow2 (e - 52) = 1 / 2 ^ nat (52 - e)"
      by (cases "e = 52") (simp_all add: pow2_def)
    then have "(of_int m :: rat) / pow2 (e - 52) = of_int (m * 2 ^ nat (52 - e))"
      by simp
    then show ?thesis ..
  next
    case False
    with e53 have e: "e = 53" by simp
    with b assms(2) have m: "m = 2 ^ 53" by simp
    from e have "pow2 (e - 52) = 2" by (simp add: pow2_def)
    with m have "(of_int m :: rat) / pow2 (e - 52) = of_int (2 ^ 52)" by simp
    then show ?thesis ..
  qed
  then obtain k :: int where k: "(of_int m :: rat) / pow2 (e - 52) = of_int k" ..
  then have recover: "of_int k * pow2 (e - 52) = (of_int m :: rat)"
    using pow2_pos [of "e - 52"] by (simp add: field_simps)
  have small: "\<not> pow2 1024 \<le> (of_int m :: rat)"
  proof -
    have "(of_int m :: rat) \<le> 2 ^ 53" using assms(2) by (metis of_int_le_iff of_int_numeral of_int_power)
    also have "\<dots> < 2 ^ 1024" by (rule power_strict_increasing) simp_all
    finally show ?thesis by (simp add: pow2_def)
  qed
  have "roundDouble (of_int m) =
      (let ulp = pow2 (e - 52); r = of_int (roundHalfEven (of_int m / ulp)) * ulp
       in if pow2 1024 \<le> r then PosInfinity else Num r)"
    using assms(1) by (simp add: roundDouble_def Let_def fl mx)
  also have "\<dots> = Num (of_int m)"
    using small by (simp only: Let_def k roundHalfEven_of_int recover if_False)
  finally show ?thesis .
qed

lemma roundDouble_int:
  assumes "\<bar>m\<bar> \<le> 2 ^ 53"
  shows "roundDouble (of_int m) = Num (of_int m)"
proof (cases "m = 0")
  case True
  then show ?thesis by (simp add: roundDouble_def)
next
  case False
  show ?thesis
  proof (cases "0 < m")
    case True
    with assms show ?thesis by (simp add: roundDouble_pos_int)
  next
    case neg: False
    with False have pos: "0 < - m" by simp
    from assms have "- m \<le> 2 ^ 53" by simp
    from roundDouble_pos_int [OF pos this]
    have "roundDouble (of_int (- m)) = Num (of_int (- m))" .
    moreover have "roundDouble (- (of_int m :: rat)) = Num (- of_int m) \<Longrightarrow>
        roundDouble (of_int m) = Num (of_int m)"
      using pos by (simp add: roundDouble_def Let_def split: if_splits)
    ultimately show ?thesis by simp
  qed
qed

lemma roundDouble_zero: "roundDouble 0 = Num 0"
  by (simp add: roundDouble_def)

lemma roundDouble_one: "roundDouble 1 = Num 1"
  using roundDouble_int [of 1] by simp

lemma roundDouble_numeral:
  "numeral k \<le> (2 :: int) ^ 53 \<Longrightarrow> roundDouble (numeral k) = Num (numeral k)"
  using roundDouble_int [of "numeral k"] by simp

lemma roundDouble_neg_numeral:
  "numeral k \<le> (2 :: int) ^ 53 \<Longrightarrow> roundDouble (- numeral k) = Num (- numeral k)"
  using roundDouble_int [of "- numeral k"] by simp

lemmas roundDouble_simps = roundDouble_zero roundDouble_one roundDouble_numeral roundDouble_neg_numeral

text \<open>
  Three results that are not the exact ones: \<open>100 / 200\<close> is exact, but \<open>1 / 49\<close> is
  rounded and \<open>49 * (1 / 49)\<close> is one unit in the last place below 1; \<open>2^53 + 3\<close> lies
  between two doubles and goes to \<open>2^53 + 4\<close>; \<open>1 + (2 - 2^-52)\<close> is a tie and goes to 3.
\<close>

lemma roundDouble_half: "roundDouble (1 / 2) = Num (1 / 2)"
  by code_simp

lemma rounded_allowed_lead:
  "js_mul (Num 49) (js_div (Num 1) (js_add (js_add (Num 0) (Num 1)) (Num 48)))
     = Num (9007199254740991 / 9007199254740992)"
  by code_simp

lemma roundDouble_large: "roundDouble 9007199254740995 = Num 9007199254740996"
  by code_simp

lemma rounded_large_sum: "js_add (Num 9007199254740992) (Num 3) = Num 9007199254740996"
  by (simp add: roundDouble_large)

lemma rounded_tie: "js_add (Num 1) (Num (2 - 1 / 4503599627370496)) = Num 3"
  by code_simp

subsection \<open>Minimum, property reads and the two policies\<close>

text \<open>On finite numbers the minimum of the booking counts is the ordinary one.\<close>

lemma js_min2_Num: "js_min2 (Num a) (Num x) = Num (min a x)"
  by (simp add: min_def)

lemma foldl_js_min2_Num:
  "foldl js_min2 (Num a) (map Num xs) = Num (Min (insert a (set xs)))"
proof (induction xs arbitrary: a)
  case Nil
  then show ?case by simp
next
  case (Cons x xs)
  have "foldl js_min2 (Num a) (map Num (x # xs)) = foldl js_min2 (Num (min a x)) (map Num xs)"
    by (simp only: list.map foldl_Cons js_min2_Num)
  also have "\<dots> = Num (Min (insert (min a x) (set xs)))"
    by (rule Cons.IH)
  also have "Min (insert (min a x) (set xs)) = Min (insert a (insert x (set xs)))"
    by (cases "set xs = {}") (simp_all add: min.assoc)
  finally show ?case by simp
qed

lemma Math_min_Num:
  "xs \<noteq> [] \<Longrightarrow> Math_min (map Num xs) = Num (Min (set xs))"
  by (cases xs) (simp_all add: Math_min_def foldl_js_min2_Num)

lemma numberAt_map_Num:
  "numberAt (map (\<lambda>(k, v). (k, Num v)) xs) k = (case map_of xs k of Some v \<Rightarrow> Num v | None \<Rightarrow> NaN)"
  by (simp add: numberAt_def map_of_map split: option.splits)

lemma map_snd_comp_Num: "map (snd \<circ> (\<lambda>(k, v). (k, Num v))) xs = map Num (map snd xs)"
  by (induction xs) auto

lemma minBookings_Num:
  assumes "xs \<noteq> []"
  shows "Math_min (map (snd \<circ> (\<lambda>(k, v). (k, Num v))) xs) = Num (Min (snd ` set xs))"
proof -
  from assms have "map snd xs \<noteq> []" by simp
  then have "Math_min (map Num (map snd xs)) = Num (Min (set (map snd xs)))"
    by (rule Math_min_Num)
  then show ?thesis by (simp only: map_snd_comp_Num set_map)
qed

lemma map_fst_map_Num: "map fst (map (\<lambda>(k, v). (k, Num v)) xs) = map fst xs"
  by (induction xs) auto

text \<open>
  The filter on a non-empty host list, once the ranking function has answered.
\<close>

lemma filter_nonempty_ranked:
  assumes "hosts \<noteq> []"
    and "getOrderedListOfLuckyUsers (map toAvailableUser hosts) eventType hosts s = (r, s')"
  shows "filterHostsByLeadThreshold getOrderedListOfLuckyUsers hosts (Some mlt) eventType s =
     (case r of
        Inl e \<Rightarrow> (Inl e, s')
      | Inr perUserData \<Rightarrow>
          (if isRRWeightsEnabled eventType then
             (case (calibrations perUserData, weights perUserData, bookingShortfalls perUserData) of
                (Some cal, Some ws, Some sf) \<Rightarrow>
                  (Inr (filter (\<lambda>host. user_id (user host) \<in> set
                         (filterHostsByLeadThresholdWithWeights
                            \<lparr> bookingsCountW = bookingsCount perUserData, bookingShortfallsW = sf,
                              calibrationsW = cal, weightsW = ws \<rparr> mlt)) hosts), s')
              | _ \<Rightarrow> (Inl (Error ''Calibrations, weights, or booking shortfalls are null''), s'))
           else
             (Inr (filter (\<lambda>host. user_id (user host) \<in> set
                     (filterHostsByLeadThresholdWithoutWeights perUserData mlt)) hosts), s')))"
  using assms
  by (cases hosts; cases r)
     (simp_all add: filterHostsByLeadThreshold_def Let_def split: option.splits)

lemma numberAt_absent: "userId \<notin> fst ` set r \<Longrightarrow> numberAt r userId = NaN"
  using map_of_eq_None_iff [of r userId] by (simp add: numberAt_def)

lemma js_le_numberAt_present: "js_le (numberAt r userId) x \<Longrightarrow> userId \<in> fst ` set r"
  by (rule ccontr) (simp add: numberAt_absent)

lemma set_filterHostsByLeadThresholdWithWeights:
  "set (filterHostsByLeadThresholdWithWeights p m) =
     {k \<in> fst ` set (bookingsCountW p).
        \<not> js_gt (js_neg (numberAt (bookingShortfallsW p) k))
              (js_mul m (js_div (numberAt (weightsW p) k)
                 (foldl (\<lambda>acc wt. js_add acc wt) (Num 0) (map snd (weightsW p)))))}"
  by (auto simp: filterHostsByLeadThresholdWithWeights_def withWeightsLoop_filter Let_def)

lemma set_filterHostsByLeadThresholdWithoutWeights:
  "set (filterHostsByLeadThresholdWithoutWeights p m) =
     {k \<in> fst ` set (bookingsCount p).
        js_le (numberAt (bookingsCount p) k) (js_add (Math_min (map snd (bookingsCount p))) m)}"
  by (auto simp: filterHostsByLeadThresholdWithoutWeights_def withoutWeightsLoop_filter Let_def)

lemmas example_defs = exampleHost_def exampleEventType_def fixedRanking_def
  unweightedExample_def weightedExample_def missingCountExample_def roundedLeadExample_def
  largeCountsExample_def

lemmas filter_defs = filterHostsByLeadThreshold_def filterHostsByLeadThresholdWithWeights_def
  filterHostsByLeadThresholdWithoutWeights_def Math_min_def Math_max_def numberAt_def
  toAvailableUser_def

subsection \<open>The filter is disabled by a null threshold\<close>

text \<open>
  Claim C4. For every host list and event type, \<open>filterHostsByLeadThreshold\<close> called with
  \<open>maxLeadThreshold = null\<close> returns the input host list unchanged. The ranking function is
  not consulted: the result is the same for every ranking function, and the state the
  ranking function works on is returned as it was given.
\<close>

theorem threshold_null_returns_hosts:
  "filterHostsByLeadThreshold getOrderedListOfLuckyUsers hosts None eventType s = (Inr hosts, s)"
  by (simp add: filterHostsByLeadThreshold_def)

subsection \<open>An empty host list\<close>

text \<open>
  Claim C10. With a threshold that is not null and an empty host list, the read of
  \<open>hosts[0].user\<close> throws a \<open>TypeError\<close> before the ranking function is called (its state
  is untouched) and before either policy is reached; so whenever the filter, with a threshold
  that is not null, produces a host list, the host list it was given is not empty.
\<close>

theorem empty_hosts_type_error:
  "filterHostsByLeadThreshold getOrderedListOfLuckyUsers [] (Some mlt) eventType s =
     (Inl (TypeError ''Cannot read properties of undefined (reading user)''), s)
   \<and> (\<forall>kept s'. filterHostsByLeadThreshold getOrderedListOfLuckyUsers hosts (Some mlt) eventType s
          = (Inr kept, s') \<longrightarrow> hosts \<noteq> [])"
  by (auto simp: filterHostsByLeadThreshold_def)

text \<open>
  The empty list, and a list of three hosts on which the filter does return a host list.
\<close>

theorem empty_hosts_type_error_witness:
  "filterHostsByLeadThreshold (fixedRanking unweightedExample) [] (Some (Num 3))
       (exampleEventType False) 0
     = (Inl (TypeError ''Cannot read properties of undefined (reading user)''), 0)
   \<and> filterHostsByLeadThreshold (fixedRanking unweightedExample)
        [exampleHost 1, exampleHost 2, exampleHost 3] (Some (Num 3)) (exampleEventType False) 0
     = (Inr [exampleHost 1, exampleHost 2], 1)
   \<and> [exampleHost 1, exampleHost 2, exampleHost 3] \<noteq> []"
  using empty_hosts_type_error [of "fixedRanking unweightedExample" "Num 3" "exampleEventType False" 0
      "[exampleHost 1, exampleHost 2, exampleHost 3]"]
  by (simp add: example_defs filter_defs roundDouble_simps)

subsection \<open>Missing ranking fields\<close>

text \<open>
  Claim C5. When \<open>eventType.isRRWeightsEnabled\<close> is true and one of \<open>calibrations\<close>,
  \<open>weights\<close>, \<open>bookingShortfalls\<close> of the ranking data is null, the filter throws the error
  "Calibrations, weights, or booking shortfalls are null" and returns no host list; when all
  three are present that branch is not taken and a host list is returned. (The hosts are not
  empty and the ranking function has answered: otherwise the filter has failed earlier.)
\<close>

theorem weights_enabled_null_ranking_fields:
  assumes "isRRWeightsEnabled eventType"
    and "hosts \<noteq> []"
    and "getOrderedListOfLuckyUsers (map toAvailableUser hosts) eventType hosts s = (Inr perUserData, s')"
  shows "((calibrations perUserData = None \<or> weights perUserData = None
            \<or> bookingShortfalls perUserData = None) \<longrightarrow>
          filterHostsByLeadThreshold getOrderedListOfLuckyUsers hosts (Some mlt) eventType s =
            (Inl (Error ''Calibrations, weights, or booking shortfalls are null''), s'))
       \<and> ((calibrations perUserData \<noteq> None \<and> weights perUserData \<noteq> None
            \<and> bookingShortfalls perUserData \<noteq> None) \<longrightarrow>
          (\<exists>kept. filterHostsByLeadThreshold getOrderedListOfLuckyUsers hosts (Some mlt) eventType s =
            (Inr kept, s')))"
  using assms(1)
  by (auto simp: filter_nonempty_ranked [where getOrderedListOfLuckyUsers = getOrderedListOfLuckyUsers and hosts = hosts and eventType = eventType and s = s, OF assms(2,3)] split: option.splits)

theorem weights_enabled_null_ranking_fields_witness:
  "filterHostsByLeadThreshold (fixedRanking unweightedExample) [exampleHost 1] (Some (Num 3))
       (exampleEventType True) 0
     = (Inl (Error ''Calibrations, weights, or booking shortfalls are null''), 1)
   \<and> (\<exists>kept. filterHostsByLeadThreshold (fixedRanking weightedExample) [exampleHost 1] (Some (Num 3))
       (exampleEventType True) 0 = (Inr kept, 1))"
  using weights_enabled_null_ranking_fields [where getOrderedListOfLuckyUsers = "fixedRanking unweightedExample"
      and hosts = "[exampleHost 1]" and eventType = "exampleEventType True" and s = 0
      and perUserData = unweightedExample and s' = 1 and mlt = "Num 3"]
    weights_enabled_null_ranking_fields [where getOrderedListOfLuckyUsers = "fixedRanking weightedExample"
      and hosts = "[exampleHost 1]" and eventType = "exampleEventType True" and s = 0
      and perUserData = weightedExample and s' = 1 and mlt = "Num 3"]
  by (simp add: example_defs)

subsection \<open>The weighted policy\<close>

text \<open>
  With a lead threshold of 49 and weights 1 and 48, the host 1 with shortfall \<open>-1\<close> is
  excluded: its allowed lead, computed in doubles, is just below 1.
\<close>

lemma rounded_lead_excludes:
  "filterHostsByLeadThreshold (fixedRanking roundedLeadExample) [exampleHost 1, exampleHost 2]
       (Some (Num 49)) (exampleEventType True) 0
     = (Inr [exampleHost 2], 1)"
  by code_simp

text \<open>
  Claim C2, as stated, does not hold. The weighted policy visits the hosts that have a
  booking count: a host without one is excluded whatever its shortfall. Here the host 2
  has shortfall \<open>-2\<close> and allowed lead \<open>6 * (100 / 200) = 3\<close>, so its negated shortfall does
  not exceed its allowed lead, and it is excluded.
\<close>

theorem missing_count_excludes_host:
  "filterHostsByLeadThreshold (fixedRanking missingCountExample) [exampleHost 1, exampleHost 2]
       (Some (Num 6)) (exampleEventType True) 0
     = (Inr [], 1)
   \<and> bookingShortfalls missingCountExample = Some [(1, Num (- 5)), (2, Num (- 2))]
   \<and> weights missingCountExample = Some [(1, Num 100), (2, Num 100)]
   \<and> js_mul (Num 6) (js_div (Num 100) (js_add (js_add (Num 0) (Num 100)) (Num 100))) = Num 3
   \<and> js_gt (js_neg (Num (- 2))) (Num 3) = False"
  by (simp add: example_defs filter_defs roundDouble_simps roundDouble_half)

text \<open>
  Claim C2, amended. With \<open>isRRWeightsEnabled\<close> true and \<open>weights\<close>, \<open>calibrations\<close> and
  \<open>bookingShortfalls\<close> present, a host of the list is excluded if and only if it has no
  booking count or its negated shortfall exceeds its allowed lead
  \<open>maxLeadThreshold * (weight / totalWeight)\<close>, where \<open>totalWeight\<close> is the sum of all
  weights; the sum, the quotient and the product are the doubles the code computes, and a
  shortfall or a weight that is missing reads as \<open>NaN\<close>, which exceeds nothing.
\<close>

theorem weighted_policy:
  assumes "isRRWeightsEnabled eventType"
    and "getOrderedListOfLuckyUsers (map toAvailableUser hosts) eventType hosts s = (Inr perUserData, s')"
    and "calibrations perUserData = Some cal"
    and "weights perUserData = Some ws"
    and "bookingShortfalls perUserData = Some sf"
    and "host \<in> set hosts"
  shows "\<exists>kept. fst (filterHostsByLeadThreshold getOrderedListOfLuckyUsers hosts
                      (Some maxLeadThreshold) eventType s) = Inr kept
           \<and> (host \<notin> set kept \<longleftrightarrow>
                user_id (user host) \<notin> fst ` set (bookingsCount perUserData)
                \<or> js_gt (js_neg (numberAt sf (user_id (user host))))
                     (js_mul maxLeadThreshold
                        (js_div (numberAt ws (user_id (user host)))
                           (foldl (\<lambda>acc wt. js_add acc wt) (Num 0) (map snd ws)))))"
proof -
  from assms(6) have ne: "hosts \<noteq> []" by auto
  show ?thesis
    using assms(1,3,4,5,6)
    by (simp add: filter_nonempty_ranked [where getOrderedListOfLuckyUsers = getOrderedListOfLuckyUsers and hosts = hosts and eventType = eventType and s = s, OF ne assms(2)]
          set_filterHostsByLeadThresholdWithWeights)
qed

text \<open>
  The example of the specification: two hosts whose allowed lead is \<open>6 * (100 / 200) = 3\<close>;
  the one with shortfall \<open>-5\<close> is excluded, the one with shortfall \<open>-2\<close> is retained.
\<close>

theorem weighted_policy_witness:
  "\<exists>kept. fst (filterHostsByLeadThreshold (fixedRanking weightedExample)
            [exampleHost 1, exampleHost 2] (Some (Num 6)) (exampleEventType True) 0)
          = Inr kept
      \<and> js_mul (Num 6) (js_div (Num 100) (foldl (\<lambda>acc wt. js_add acc wt) (Num 0) [Num 100, Num 100]))
          = Num 3
      \<and> exampleHost 1 \<notin> set kept \<and> exampleHost 2 \<in> set kept"
proof -
  let ?hosts = "[exampleHost 1, exampleHost 2]"
  note inst = weighted_policy [where getOrderedListOfLuckyUsers = "fixedRanking weightedExample"
      and hosts = ?hosts and eventType = "exampleEventType True" and s = 0
      and perUserData = weightedExample and s' = 1 and ws = "[(1, Num 100), (2, Num 100)]"
      and cal = "[(1, Num 0), (2, Num 0)]" and sf = "[(1, Num (- 5)), (2, Num (- 2))]"
      and maxLeadThreshold = "Num 6"]
  have lead: "js_mul (Num 6) (js_div (Num 100) (foldl (\<lambda>acc wt. js_add acc wt) (Num 0) [Num 100, Num 100]))
          = Num 3"
    by (simp add: roundDouble_simps roundDouble_half)
  have a: "\<exists>kept. fst (filterHostsByLeadThreshold (fixedRanking weightedExample) ?hosts
              (Some (Num 6)) (exampleEventType True) 0) = Inr kept \<and> exampleHost 1 \<notin> set kept"
    using inst [of "exampleHost 1"]
    by (simp add: example_defs numberAt_def roundDouble_simps roundDouble_half)
  have b: "\<exists>kept. fst (filterHostsByLeadThreshold (fixedRanking weightedExample) ?hosts
              (Some (Num 6)) (exampleEventType True) 0) = Inr kept \<and> exampleHost 2 \<in> set kept"
    using inst [of "exampleHost 2"]
    by (simp add: example_defs numberAt_def roundDouble_simps roundDouble_half)
  from a b lead show ?thesis by auto
qed

subsection \<open>The unweighted policy\<close>

text \<open>
  With booking counts \<open>2^53\<close> and \<open>2^53 + 4\<close> and a lead threshold of 3, both hosts are
  retained: the bound \<open>minBookings + maxLeadThreshold\<close>, computed in doubles, is
  \<open>2^53 + 4\<close>.
\<close>

lemma large_counts_retained:
  "filterHostsByLeadThreshold (fixedRanking largeCountsExample) [exampleHost 1, exampleHost 2]
       (Some (Num 3)) (exampleEventType False) 0
     = (Inr [exampleHost 1, exampleHost 2], 1)"
  by (simp add: example_defs filter_defs roundDouble_large)

text \<open>
  Claim C3. With \<open>isRRWeightsEnabled\<close> false and a threshold that is not null, a host of
  the list is retained if and only if its booking count is at most
  \<open>minBookings + maxLeadThreshold\<close>, where \<open>minBookings\<close> is the minimum of all booking
  counts and the sum is the double the code computes (a host without a booking count is
  not retained: its count reads as \<open>undefined\<close>, which is at most nothing). When the
  counts and the threshold are finite and the exact sum is an integer of magnitude at
  most \<open>2^53\<close>, as it is for booking counts and an integer threshold, the sum is exact
  and the test is the inequality of the exact numbers.
\<close>

theorem unweighted_policy:
  assumes "\<not> isRRWeightsEnabled eventType"
    and "getOrderedListOfLuckyUsers (map toAvailableUser hosts) eventType hosts s = (Inr perUserData, s')"
    and "host \<in> set hosts"
  shows "\<exists>kept. fst (filterHostsByLeadThreshold getOrderedListOfLuckyUsers hosts
                      (Some maxLeadThreshold) eventType s) = Inr kept
           \<and> (host \<in> set kept \<longleftrightarrow>
                js_le (numberAt (bookingsCount perUserData) (user_id (user host)))
                  (js_add (Math_min (map snd (bookingsCount perUserData))) maxLeadThreshold))
           \<and> (bookingsCount perUserData = map (\<lambda>(userId, n). (userId, Num n)) counts
                \<and> maxLeadThreshold = Num threshold
                \<and> map_of counts (user_id (user host)) = Some n
                \<and> Min (snd ` set counts) + threshold = of_int z \<and> \<bar>z\<bar> \<le> 2 ^ 53
              \<longrightarrow> (host \<in> set kept \<longleftrightarrow> n \<le> Min (snd ` set counts) + threshold))"
proof -
  let ?kept = "filter (\<lambda>host. user_id (user host) \<in> set
                  (filterHostsByLeadThresholdWithoutWeights perUserData maxLeadThreshold)) hosts"
  let ?bound = "js_add (Math_min (map snd (bookingsCount perUserData))) maxLeadThreshold"
  from assms(3) have ne: "hosts \<noteq> []" by auto
  have run: "fst (filterHostsByLeadThreshold getOrderedListOfLuckyUsers hosts
                      (Some maxLeadThreshold) eventType s) = Inr ?kept"
    using assms(1)
    by (simp add: filter_nonempty_ranked [where getOrderedListOfLuckyUsers = getOrderedListOfLuckyUsers and hosts = hosts and eventType = eventType and s = s, OF ne assms(2)])
  have general: "host \<in> set ?kept \<longleftrightarrow>
      js_le (numberAt (bookingsCount perUserData) (user_id (user host))) ?bound"
    using assms(3) js_le_numberAt_present [of "bookingsCount perUserData" "user_id (user host)" ?bound]
    by (auto simp: set_filterHostsByLeadThresholdWithoutWeights)
  have exact: "host \<in> set ?kept \<longleftrightarrow> n \<le> Min (snd ` set counts) + threshold"
    if bc: "bookingsCount perUserData = map (\<lambda>(userId, n). (userId, Num n)) counts"
      and mlt: "maxLeadThreshold = Num threshold"
      and n: "map_of counts (user_id (user host)) = Some n"
      and z: "Min (snd ` set counts) + threshold = of_int z" "\<bar>z\<bar> \<le> 2 ^ 53"
  proof -
    from n have cne: "counts \<noteq> []" by auto
    have mn: "Math_min (map (snd \<circ> (\<lambda>(userId, n). (userId, Num n))) counts)
                = Num (Min (snd ` set counts))"
      using cne by (rule minBookings_Num)
    have nk: "numberAt (map (\<lambda>(userId, n). (userId, Num n)) counts) (user_id (user host)) = Num n"
      using n by (simp add: numberAt_map_Num)
    have "?bound = roundDouble (Min (snd ` set counts) + threshold)"
      by (simp add: bc mlt mn)
    also have "\<dots> = Num (Min (snd ` set counts) + threshold)"
      using roundDouble_int [OF z(2)] by (simp only: z(1))
    finally have bound: "?bound = Num (Min (snd ` set counts) + threshold)" .
    from general show ?thesis
      by (simp only: bound) (simp add: bc nk)
  qed
  from run general exact show ?thesis by blast
qed

text \<open>
  The example of the specification: counts 2, 5 and 8 with a threshold of 3 retain the
  first two hosts and exclude the third.
\<close>

theorem unweighted_policy_witness:
  "\<exists>kept. fst (filterHostsByLeadThreshold (fixedRanking unweightedExample)
            [exampleHost 1, exampleHost 2, exampleHost 3] (Some (Num 3)) (exampleEventType False) 0)
          = Inr kept
      \<and> Min (snd ` set [(1 :: int, 2 :: rat), (2, 5), (3, 8)]) + 3 = of_int 5
      \<and> exampleHost 1 \<in> set kept \<and> exampleHost 2 \<in> set kept \<and> exampleHost 3 \<notin> set kept"
proof -
  let ?hosts = "[exampleHost 1, exampleHost 2, exampleHost 3]"
  let ?counts = "[(1, 2), (2, 5), (3, 8)] :: (int \<times> rat) list"
  note inst = unweighted_policy [where getOrderedListOfLuckyUsers = "fixedRanking unweightedExample"
      and hosts = ?hosts and eventType = "exampleEventType False" and s = 0
      and perUserData = unweightedExample and s' = 1 and counts = ?counts
      and maxLeadThreshold = "Num 3" and threshold = 3 and z = 5]
  have sum: "Min (snd ` set ?counts) + 3 = of_int 5" by simp
  have a: "\<exists>kept. fst (filterHostsByLeadThreshold (fixedRanking unweightedExample) ?hosts
              (Some (Num 3)) (exampleEventType False) 0) = Inr kept \<and> exampleHost 1 \<in> set kept"
    using inst [of "exampleHost 1" 2] by (auto simp: example_defs)
  have b: "\<exists>kept. fst (filterHostsByLeadThreshold (fixedRanking unweightedExample) ?hosts
              (Some (Num 3)) (exampleEventType False) 0) = Inr kept \<and> exampleHost 2 \<in> set kept"
    using inst [of "exampleHost 2" 5] by (auto simp: example_defs)
  have c: "\<exists>kept. fst (filterHostsByLeadThreshold (fixedRanking unweightedExample) ?hosts
              (Some (Num 3)) (exampleEventType False) 0) = Inr kept \<and> exampleHost 3 \<notin> set kept"
    using inst [of "exampleHost 3" 8] by (auto simp: example_defs)
  from a b c sum show ?thesis by auto
qed

subsection \<open>Repeated calls\<close>

text \<open>
  The filter assigns to none of its arguments and changes none of the arrays it reads
  (\<open>slice\<close>, \<open>map\<close> and \<open>filter\<close> build new ones); \<open>maxLeadThreshold\<close> is a number, passed by
  value. What a call leaves behind is the state of the ranking function only.
\<close>

lemma successive_calls_same_data:
  assumes "fst (getOrderedListOfLuckyUsers (map toAvailableUser hosts) eventType hosts
             (snd (filterHostsByLeadThreshold getOrderedListOfLuckyUsers hosts maxLeadThreshold eventType s)))
         = fst (getOrderedListOfLuckyUsers (map toAvailableUser hosts) eventType hosts s)"
  shows "fst (filterHostsByLeadThreshold getOrderedListOfLuckyUsers hosts maxLeadThreshold eventType
               (snd (filterHostsByLeadThreshold getOrderedListOfLuckyUsers hosts maxLeadThreshold eventType s)))
       = fst (filterHostsByLeadThreshold getOrderedListOfLuckyUsers hosts maxLeadThreshold eventType s)"
proof (cases maxLeadThreshold)
  case None
  then show ?thesis by (simp add: filterHostsByLeadThreshold_def)
next
  case (Some mlt)
  show ?thesis
  proof (cases "hosts = []")
    case True
    with Some show ?thesis by (simp add: filterHostsByLeadThreshold_def)
  next
    case False
    obtain r s1 where r1: "getOrderedListOfLuckyUsers (map toAvailableUser hosts) eventType hosts s = (r, s1)"
      by (cases "getOrderedListOfLuckyUsers (map toAvailableUser hosts) eventType hosts s")
    have s1: "snd (filterHostsByLeadThreshold getOrderedListOfLuckyUsers hosts (Some mlt) eventType s) = s1"
      by (simp add: filter_nonempty_ranked [where getOrderedListOfLuckyUsers = getOrderedListOfLuckyUsers and hosts = hosts and eventType = eventType and s = s, OF False r1] split: sum.splits option.splits)
    obtain r' s2 where r2: "getOrderedListOfLuckyUsers (map toAvailableUser hosts) eventType hosts s1 = (r', s2)"
      by (cases "getOrderedListOfLuckyUsers (map toAvailableUser hosts) eventType hosts s1")
    from assms Some s1 r1 r2 have "r' = r" by simp
    with Some s1 show ?thesis
      by (simp add: filter_nonempty_ranked [where getOrderedListOfLuckyUsers = getOrderedListOfLuckyUsers and hosts = hosts and eventType = eventType and s = s, OF False r1] filter_nonempty_ranked [where getOrderedListOfLuckyUsers = getOrderedListOfLuckyUsers and hosts = hosts and eventType = eventType and s = s1, OF False r2]
            split: sum.splits option.splits)
  qed
qed

text \<open>
  Claim C9, as stated, does not hold: there is no pair of successive calls with the same
  threshold, hosts, event type and ranking data whose results differ.
\<close>

theorem no_pair_of_calls_differs:
  "\<not> (\<exists>(ranking :: nat getOrderedListOfLuckyUsers) hosts maxLeadThreshold eventType s.
        fst (ranking (map toAvailableUser hosts) eventType hosts
               (snd (filterHostsByLeadThreshold ranking hosts maxLeadThreshold eventType s)))
          = fst (ranking (map toAvailableUser hosts) eventType hosts s)
      \<and> fst (filterHostsByLeadThreshold ranking hosts maxLeadThreshold eventType
               (snd (filterHostsByLeadThreshold ranking hosts maxLeadThreshold eventType s)))
          \<noteq> fst (filterHostsByLeadThreshold ranking hosts maxLeadThreshold eventType s))"
proof
  assume "\<exists>(ranking :: nat getOrderedListOfLuckyUsers) hosts maxLeadThreshold eventType s.
        fst (ranking (map toAvailableUser hosts) eventType hosts
               (snd (filterHostsByLeadThreshold ranking hosts maxLeadThreshold eventType s)))
          = fst (ranking (map toAvailableUser hosts) eventType hosts s)
      \<and> fst (filterHostsByLeadThreshold ranking hosts maxLeadThreshold eventType
               (snd (filterHostsByLeadThreshold ranking hosts maxLeadThreshold eventType s)))
          \<noteq> fst (filterHostsByLeadThreshold ranking hosts maxLeadThreshold eventType s)"
  then obtain ranking :: "nat getOrderedListOfLuckyUsers" and hosts maxLeadThreshold eventType s
    where same: "fst (ranking (map toAvailableUser hosts) eventType hosts
               (snd (filterHostsByLeadThreshold ranking hosts maxLeadThreshold eventType s)))
          = fst (ranking (map toAvailableUser hosts) eventType hosts s)"
      and differ: "fst (filterHostsByLeadThreshold ranking hosts maxLeadThreshold eventType
               (snd (filterHostsByLeadThreshold ranking hosts maxLeadThreshold eventType s)))
          \<noteq> fst (filterHostsByLeadThreshold ranking hosts maxLeadThreshold eventType s)"
    by blast
  from same have "fst (filterHostsByLeadThreshold ranking hosts maxLeadThreshold eventType
               (snd (filterHostsByLeadThreshold ranking hosts maxLeadThreshold eventType s)))
          = fst (filterHostsByLeadThreshold ranking hosts maxLeadThreshold eventType s)"
    by (rule successive_calls_same_data)
  with differ show False by contradiction
qed

text \<open>
  Claim C9, amended. \<open>filterHostsByLeadThreshold\<close> does not consume its threshold: two
  successive calls with the same threshold, hosts and event type, to which the ranking
  function gives the same answer, return the same result.
\<close>

theorem successive_calls_agree:
  assumes "fst (getOrderedListOfLuckyUsers (map toAvailableUser hosts) eventType hosts
             (snd (filterHostsByLeadThreshold getOrderedListOfLuckyUsers hosts maxLeadThreshold eventType s)))
         = fst (getOrderedListOfLuckyUsers (map toAvailableUser hosts) eventType hosts s)"
  shows "fst (filterHostsByLeadThreshold getOrderedListOfLuckyUsers hosts maxLeadThreshold eventType
               (snd (filterHostsByLeadThreshold getOrderedListOfLuckyUsers hosts maxLeadThreshold eventType s)))
       = fst (filterHostsByLeadThreshold getOrderedListOfLuckyUsers hosts maxLeadThreshold eventType s)"
  using assms by (rule successive_calls_same_data)

theorem successive_calls_agree_witness:
  "fst (fixedRanking unweightedExample
          (map toAvailableUser [exampleHost 1, exampleHost 2, exampleHost 3]) (exampleEventType False)
          [exampleHost 1, exampleHost 2, exampleHost 3]
          (snd (filterHostsByLeadThreshold (fixedRanking unweightedExample)
             [exampleHost 1, exampleHost 2, exampleHost 3] (Some (Num 3)) (exampleEventType False) 0)))
     = fst (fixedRanking unweightedExample
          (map toAvailableUser [exampleHost 1, exampleHost 2, exampleHost 3]) (exampleEventType False)
          [exampleHost 1, exampleHost 2, exampleHost 3] 0)
   \<and> fst (filterHostsByLeadThreshold (fixedRanking unweightedExample)
         [exampleHost 1, exampleHost 2, exampleHost 3] (Some (Num 3)) (exampleEventType False)
         (snd (filterHostsByLeadThreshold (fixedRanking unweightedExample)
             [exampleHost 1, exampleHost 2, exampleHost 3] (Some (Num 3)) (exampleEventType False) 0)))
     = fst (filterHostsByLeadThreshold (fixedRanking unweightedExample)
         [exampleHost 1, exampleHost 2, exampleHost 3] (Some (Num 3)) (exampleEventType False) 0)"
proof -
  let ?hosts = "[exampleHost 1, exampleHost 2, exampleHost 3]"
  let ?s1 = "snd (filterHostsByLeadThreshold (fixedRanking unweightedExample) ?hosts
               (Some (Num 3)) (exampleEventType False) 0)"
  have same: "fst (fixedRanking unweightedExample (map toAvailableUser ?hosts)
                     (exampleEventType False) ?hosts ?s1)
            = fst (fixedRanking unweightedExample (map toAvailableUser ?hosts)
                     (exampleEventType False) ?hosts 0)"
    by (simp add: fixedRanking_def)
  from same show ?thesis
    using successive_calls_agree [where getOrderedListOfLuckyUsers = "fixedRanking unweightedExample"
      and hosts = ?hosts and eventType = "exampleEventType False"
      and maxLeadThreshold = "Some (Num 3)" and s = 0]
    by simp
qed

section \<open>Properties of the onboarding finalizer\<close>

subsection \<open>Identifiers and lookups\<close>

lemmas action_defs = await_def external_def returnA_def throwA_def tryCatch_def

text \<open>
  A new organization gets an id above every stored one, so the lookup by that id finds it.
\<close>

lemma fold_max_ge: "(a::int) \<le> fold max xs a"
proof (induction xs arbitrary: a)
  case Nil
  then show ?case by simp
next
  case (Cons y ys)
  have "a \<le> max y a" by simp
  also have "\<dots> \<le> fold max ys (max y a)" by (rule Cons.IH)
  finally show ?case by simp
qed

lemma fold_max_mem: "x \<in> set xs \<Longrightarrow> (x::int) \<le> fold max xs a"
proof (induction xs arbitrary: a)
  case Nil
  then show ?case by simp
next
  case (Cons y ys)
  show ?case
  proof (cases "x = y")
    case True
    have "y \<le> max y a" by simp
    also have "\<dots> \<le> fold max ys (max y a)" by (rule fold_max_ge)
    finally show ?thesis using True by simp
  next
    case False
    with Cons.prems have "x \<in> set ys" by simp
    then show ?thesis using Cons.IH by simp
  qed
qed

lemma nextOrganizationId_fresh:
  "organization \<in> set (organizations w) \<Longrightarrow> org_id organization < nextOrganizationId w"
  using fold_max_mem [of "org_id organization" "map org_id (organizations w)" 0]
  by (simp add: nextOrganizationId_def)

lemma nextOrganizationId_pos: "0 < nextOrganizationId w"
  using fold_max_ge [of 0 "map org_id (organizations w)"]
  by (simp add: nextOrganizationId_def)

lemma find_append_fresh:
  "\<forall>x \<in> set xs. \<not> P x \<Longrightarrow> P y \<Longrightarrow> find P (xs @ [y]) = Some y"
  by (induction xs) auto

lemma find_mem: "find P xs = Some x \<Longrightarrow> x \<in> set xs \<and> P x"
  by (induction xs) (auto split: if_splits)

lemma find_distinct_id:
  "distinct (map f xs) \<Longrightarrow> x \<in> set xs \<Longrightarrow> find (\<lambda>y. f y = f x) xs = Some x"
  by (induction xs) (auto simp: rev_image_eqI)

text \<open>
  When the lookup of the code finds an organization, \<open>createOrganizationWithOwner\<close> returns
  it and leaves the world as it is, unless one of its first two calls rejects.
\<close>

lemma createOrganizationWithOwner_reuse:
  assumes "(if truthyNumber (od_id orgData) then findById w (the (od_id orgData))
            else findBySlug w (od_slug orgData)) = Some org"
  shows "createOrganizationWithOwner e owner obid orgData w = (Inr org, w)
       \<or> (\<exists>err. createOrganizationWithOwner e owner obid orgData w = (Inl err, w))"
  using assms
  by (auto simp: createOrganizationWithOwner_def action_defs split: if_splits)

lemma createOrganizationWithOwner_reuse_ok:
  assumes "(if truthyNumber (od_id orgData) then findById w (the (od_id orgData))
            else findBySlug w (od_slug orgData)) = Some org"
    and "\<forall>c. \<not> rejects e c"
  shows "createOrganizationWithOwner e owner obid orgData w = (Inr org, w)"
  using assms
  by (auto simp: createOrganizationWithOwner_def action_defs split: if_splits)

text \<open>
  Stored organization ids are database-generated and positive, so the lookup of the
  specification and the lookup of the code agree when the former finds an organization.
\<close>

lemma lookup_of_existing:
  assumes "\<forall>organization \<in> set (organizations w). 0 < org_id organization"
    and "existingOrganization w ob = Some org"
    and "od_id orgData = onb_organizationId ob" and "od_slug orgData = onb_slug ob"
    and "organizations w1 = organizations w"
  shows "(if truthyNumber (od_id orgData) then findById w1 (the (od_id orgData))
          else findBySlug w1 (od_slug orgData)) = Some org"
proof (cases "onb_organizationId ob")
  case None
  with assms(2-5) show ?thesis
    by (simp add: existingOrganization_def truthyNumber_def findBySlug_def)
next
  case (Some i)
  with assms(2) have f: "findById w i = Some org" by (simp add: existingOrganization_def)
  then have "org \<in> set (organizations w)" "org_id org = i"
    using find_mem [of "\<lambda>organization. org_id organization = i" "organizations w" org]
    by (simp_all add: findById_def)
  with assms(1) have "i \<noteq> 0" by auto
  with Some f assms(3,5) show ?thesis by (simp add: truthyNumber_def findById_def)
qed

subsection \<open>What the steps leave untouched\<close>

lemma inviteMembers_frame:
  "inviteMembers e ms org w = (r, w') \<Longrightarrow>
     organizations w' = organizations w \<and> sentEmails w' = sentEmails w
     \<and> onboardingOrganizationId w' = onboardingOrganizationId w"
  by (auto simp: inviteMembers_def action_defs inviteMembersWithNoInviterPermissionCheck_def
      split: if_splits)

lemma createOrMoveTeamsToOrganization_frame:
  "createOrMoveTeamsToOrganization e ts owner i w = (r, w') \<Longrightarrow>
     organizations w' = organizations w \<and> sentEmails w' = sentEmails w
     \<and> onboardingOrganizationId w' = onboardingOrganizationId w"
  by (auto simp: createOrMoveTeamsToOrganization_def action_defs createTeamsHandler_def Let_def
      split: if_splits)

lemma createOrganizationFromOnboarding_reuse:
  assumes inv: "\<forall>organization \<in> set (organizations w). 0 < org_id organization"
    and ex: "existingOrganization w ob = Some org"
    and run: "createOrganizationFromOnboarding e ob sub w = (r, w')"
  shows "map org_id (organizations w') = map org_id (organizations w)
       \<and> sentEmails w' = sentEmails w
       \<and> (\<forall>res. r = Inr res \<longrightarrow> fst res = org)"
proof -
  let ?w1 = "w\<lparr> domains := domains w @ [(onb_slug ob, onb_isPlatform ob)] \<rparr>"
  let ?od = "\<lparr> od_id = onb_organizationId ob,
                    od_name = onb_name ob,
                    od_slug = onb_slug ob,
                    isOrganizationConfigured = True,
                    isOrganizationAdminReviewed = True,
                    autoAcceptEmail = secondPiece (splitOn CHR ''@'' (orgOwnerEmail ob)),
                    od_seats = onb_seats ob,
                    od_pricePerSeat = onb_pricePerSeat ob,
                    od_isPlatform = False,
                    logoUrl = onb_logo ob,
                    od_bio = onb_bio ob,
                    od_billingPeriod = onb_billingPeriod ob,
                    od_paymentSubscriptionId = sub \<rparr>"
  have look: "(if truthyNumber (od_id ?od) then findById ?w1 (the (od_id ?od))
          else findBySlug ?w1 (od_slug ?od)) = Some org"
    by (rule lookup_of_existing [OF inv ex]) simp_all
  have step: "\<And>owner. createOrganizationWithOwner e owner (onb_id ob) ?od ?w1 = (Inr org, ?w1)
       \<or> (\<exists>err. createOrganizationWithOwner e owner (onb_id ob) ?od ?w1 = (Inl err, ?w1))"
    by (rule createOrganizationWithOwner_reuse [OF look])
  show ?thesis
  proof (cases "rejects e FindUserToBeOrgOwner \<or> findUserToBeOrgOwner e (orgOwnerEmail ob) = None
      \<or> rejects e (GetTranslation ''createOrganizationFromOnboarding'') \<or> rejects e SetupDomain")
    case True
    with run show ?thesis
      by (auto simp: createOrganizationFromOnboarding_def action_defs setupDomain_def
          split: if_splits option.splits)
  next
    case False
    then obtain owner where owner: "findUserToBeOrgOwner e (orgOwnerEmail ob) = Some owner"
      by auto
    from False owner have eq: "createOrganizationFromOnboarding e ob sub w =
        await (createOrganizationWithOwner e owner (onb_id ob) ?od)
           (\<lambda>organization.
         case onb_invitedMembers ob of
           None \<Rightarrow> throwA (ZodError ''invitedMembers'')
         | Some invitedMembers \<Rightarrow>
        (case onb_teams ob of
           None \<Rightarrow> throwA (ZodError ''teams'')
         | Some teams \<Rightarrow>
         await (inviteMembers e invitedMembers organization)
           (\<lambda>_.
         await (createOrMoveTeamsToOrganization e teams owner (org_id organization))
           (\<lambda>_.
         await (if \<not> truthyString (org_slug organization)
                then external (rejects e SetSlug) (setSlug (org_id organization) (onb_slug ob))
                else returnA ())
           (\<lambda>_. returnA (organization, owner)))))) ?w1"
      by (simp add: createOrganizationFromOnboarding_def action_defs setupDomain_def)
    from step [of owner] show ?thesis
    proof
      assume "\<exists>err. createOrganizationWithOwner e owner (onb_id ob) ?od ?w1 = (Inl err, ?w1)"
      with run eq show ?thesis by (auto simp: await_def)
    next
      assume ok: "createOrganizationWithOwner e owner (onb_id ob) ?od ?w1 = (Inr org, ?w1)"
      show ?thesis
      proof (cases "onb_invitedMembers ob")
        case None
        with run eq ok show ?thesis by (auto simp: await_def throwA_def)
      next
        case (Some ms)
        note ms = this
        show ?thesis
        proof (cases "onb_teams ob")
          case None
          with run eq ok ms show ?thesis by (auto simp: await_def throwA_def)
        next
          case (Some ts)
          obtain r2 w2 where i2: "inviteMembers e ms org ?w1 = (r2, w2)"
            by (cases "inviteMembers e ms org ?w1")
          obtain r3 w3 where i3: "createOrMoveTeamsToOrganization e ts owner (org_id org) w2 = (r3, w3)"
            by (cases "createOrMoveTeamsToOrganization e ts owner (org_id org) w2")
          from inviteMembers_frame [OF i2] have f2: "organizations w2 = organizations w"
            "sentEmails w2 = sentEmails w" by simp_all
          from createOrMoveTeamsToOrganization_frame [OF i3] f2
          have f3: "organizations w3 = organizations w" "sentEmails w3 = sentEmails w" by simp_all
          from run eq ok ms Some i2 i3 f2 f3 show ?thesis
            by (auto simp: await_def returnA_def external_def setSlug_def comp_def
                split: sum.splits if_splits)
        qed
      qed
    qed
  qed
qed

subsection \<open>Creation\<close>

lemma createOrganizationWithOwner_cases:
  assumes "createOrganizationWithOwner e owner obid orgData w = (Inr org, w')"
  shows "(w' = w \<and> org \<in> set (organizations w))
       \<or> (org = \<lparr> org_id = nextOrganizationId w, org_name = od_name orgData,
                   org_slug = (if slugConflictType e = Some ''teamUserIsMemberOfExists''
                               then None else Some (od_slug orgData)),
                   org_isPlatform = od_isPlatform orgData \<rparr>
          \<and> organizations w' = organizations w @ [org]
          \<and> onboardingOrganizationId w' = (onboardingOrganizationId w)(obid := Some (org_id org))
          \<and> sentEmails w' =
              (if od_isPlatform orgData then sentEmails w
               else sentEmails w @
                 [\<lparr> mail_to = owner_email owner, mail_orgName = od_name orgData,
                    mail_orgSlug = od_slug orgData, ownerNewUsername = ownerProfileUsername e,
                    ownerOldUsername = (case owner_username owner of Some u \<Rightarrow> u | None \<Rightarrow> []) \<rparr>]))"
  using assms
  by (auto simp: createOrganizationWithOwner_def action_defs Let_def findById_def findBySlug_def
        createWithExistingUserAsOwner_def sendOrganizationCreationEmail_def
        availabilityCreateMany_def setOrganizationId_def
      split: if_splits option.splits dest: find_mem)

lemma createOrganizationWithOwner_records_id:
  assumes "createOrganizationWithOwner e owner obid orgData w = (Inr org, w')"
    and "org \<notin> set (organizations w)"
  shows "onboardingOrganizationId w' obid = Some (org_id org)
       \<and> findById w' (org_id org) = Some org \<and> 0 < org_id org"
proof -
  from createOrganizationWithOwner_cases [OF assms(1)] assms(2)
  have org: "org_id org = nextOrganizationId w"
    and orgs: "organizations w' = organizations w @ [org]"
    and rec: "onboardingOrganizationId w' = (onboardingOrganizationId w)(obid := Some (org_id org))"
    by auto
  have "\<forall>x \<in> set (organizations w). \<not> org_id x = org_id org"
    using nextOrganizationId_fresh [of _ w] org by fastforce
  then have "find (\<lambda>x. org_id x = org_id org) (organizations w @ [org]) = Some org"
    by (rule find_append_fresh) simp
  with orgs rec org nextOrganizationId_pos [of w] show ?thesis
    by (simp add: findById_def)
qed

lemma createOrganizationWithOwner_stored:
  assumes "distinct (map org_id (organizations w))"
    and "createOrganizationWithOwner e owner obid orgData w = (Inr org, w')"
  shows "findById w' (org_id org) = Some org"
proof (cases "org \<in> set (organizations w)")
  case False
  with createOrganizationWithOwner_records_id [OF assms(2)] show ?thesis by simp
next
  case True
  have "nextOrganizationId w \<noteq> org_id org"
    using nextOrganizationId_fresh [OF True] by simp
  with createOrganizationWithOwner_cases [OF assms(2)] have "w' = w" by auto
  with find_distinct_id [OF assms(1) True] show ?thesis by (simp add: findById_def)
qed

lemma createOrganizationWithOwner_platform_no_email:
  assumes "createOrganizationWithOwner e owner obid orgData w = (Inr org, w')"
    and "od_isPlatform orgData"
  shows "sentEmails w' = sentEmails w"
  using createOrganizationWithOwner_cases [OF assms(1)] assms(2) by auto

lemma findById_setSlug:
  "findById (snd (setSlug i slug w)) j =
     map_option (\<lambda>organization. if org_id organization = i
                      then organization\<lparr> org_slug := Some slug \<rparr> else organization) (findById w j)"
proof -
  have "find (\<lambda>x. org_id x = j) (map (\<lambda>organization. if org_id organization = i
                      then organization\<lparr> org_slug := Some slug \<rparr> else organization) xs)
      = map_option (\<lambda>organization. if org_id organization = i
                      then organization\<lparr> org_slug := Some slug \<rparr> else organization)
          (find (\<lambda>x. org_id x = j) xs)" for xs :: "organization list"
    by (induction xs) auto
  then show ?thesis by (simp add: findById_def setSlug_def)
qed

lemma createOrganizationFromOnboarding_reuse_returns:
  assumes inv: "\<forall>organization \<in> set (organizations w). 0 < org_id organization"
    and ex: "existingOrganization w ob = Some org"
    and ok: "\<forall>c. \<not> rejects e c"
    and own: "findUserToBeOrgOwner e (orgOwnerEmail ob) = Some owner"
    and ms: "onb_invitedMembers ob = Some ms" and ts: "onb_teams ob = Some ts"
  shows "fst (createOrganizationFromOnboarding e ob sub w) = Inr (org, owner)"
proof -
  let ?w1 = "w\<lparr> domains := domains w @ [(onb_slug ob, onb_isPlatform ob)] \<rparr>"
  let ?od = "\<lparr> od_id = onb_organizationId ob,
                    od_name = onb_name ob,
                    od_slug = onb_slug ob,
                    isOrganizationConfigured = True,
                    isOrganizationAdminReviewed = True,
                    autoAcceptEmail = secondPiece (splitOn CHR ''@'' (orgOwnerEmail ob)),
                    od_seats = onb_seats ob,
                    od_pricePerSeat = onb_pricePerSeat ob,
                    od_isPlatform = False,
                    logoUrl = onb_logo ob,
                    od_bio = onb_bio ob,
                    od_billingPeriod = onb_billingPeriod ob,
                    od_paymentSubscriptionId = sub \<rparr>"
  have look: "(if truthyNumber (od_id ?od) then findById ?w1 (the (od_id ?od))
          else findBySlug ?w1 (od_slug ?od)) = Some org"
    by (rule lookup_of_existing [OF inv ex]) simp_all
  have step: "createOrganizationWithOwner e owner (onb_id ob) ?od ?w1 = (Inr org, ?w1)"
    by (rule createOrganizationWithOwner_reuse_ok [OF look ok])
  show ?thesis
    using ok own ms ts
    by (simp add: createOrganizationFromOnboarding_def await_def [of "createOrganizationWithOwner _ _ _ _"]
          step)
       (simp add: action_defs setupDomain_def step inviteMembers_def
          createOrMoveTeamsToOrganization_def inviteMembersWithNoInviterPermissionCheck_def
          createTeamsHandler_def setSlug_def Let_def)
qed

subsection \<open>Runs on the example\<close>

lemmas onboarding_example_defs = emptyWorld_def exampleOwner_def exampleEnv_def exampleOnboarding_def
  acmeOrganization_def acmeCreationEmail_def worldWithAcme_def

lemmas onboarding_defs = createOrganizationFromOnboarding_def createOrganizationWithOwner_def
  inviteMembers_def createOrMoveTeamsToOrganization_def await_def external_def returnA_def
  throwA_def tryCatch_def findById_def findBySlug_def nextOrganizationId_def
  createWithExistingUserAsOwner_def setOrganizationId_def setSlug_def setupDomain_def
  sendOrganizationCreationEmail_def availabilityCreateMany_def truthyNumber_def truthyString_def
  Let_def

lemma first_invocation:
  "createOrganizationFromOnboarding (exampleEnv None) (exampleOnboarding None platform) ''sub_1'' emptyWorld
     = (Inr (acmeOrganization (Some ''acme''), exampleOwner), worldWithAcme platform)"
  by (simp add: onboarding_defs onboarding_example_defs)

lemma first_invocation_deferred_slug:
  "createOrganizationFromOnboarding (exampleEnv (Some ''teamUserIsMemberOfExists''))
       (exampleOnboarding None False) ''sub_1'' emptyWorld
     = (Inr (acmeOrganization None, exampleOwner), worldWithAcme False)"
  by (simp add: onboarding_defs onboarding_example_defs)

lemma createOrganizationWithOwner_example:
  "createOrganizationWithOwner (exampleEnv None) exampleOwner 1 exampleOrgData emptyWorld
     = (Inr (acmeOrganization (Some ''acme'')), (worldWithAcme False)\<lparr> domains := [] \<rparr>)"
  by (simp add: onboarding_defs onboarding_example_defs exampleOrgData_def)

subsection \<open>Idempotent creation\<close>

text \<open>
  When the organization of an onboarding record is found by the lookup, a run creates no
  organization and sends no e-mail (lemma \<open>createOrganizationFromOnboarding_reuse\<close>), and
  after a creation that \<open>createOrganizationWithOwner\<close> returns from, the id is on the
  onboarding record (lemma \<open>createOrganizationWithOwner_records_id\<close>). What is left is a
  creation that the function does not return from.
\<close>

text \<open>
  Claim C1 says that the organization id is recorded back onto the onboarding record after
  creation, so that later invocations short-circuit at the lookup; the source says the same
  (the function "should be idempotent", and the id is recorded "so that for further attempts
  after a failed update, we can use the organizationId itself from the onboarding"). But the
  id is recorded after the \<open>try\<close> block. Here the slug is in conflict with a team of the
  owner, so the organization is created with slug \<open>null\<close>, and the creation e-mail is
  rejected: the run throws, the organization 1 is stored, the onboarding record has no
  organization id, and the lookup by slug finds nothing. The retry, in which nothing
  fails, creates the organization 2.
\<close>

theorem retry_after_rejected_email_creates_again:
  "createOrganizationFromOnboarding failedEmailEnv (exampleOnboarding None False) ''sub_1'' emptyWorld
     = (Inl (Rejected ''external call''), worldAfterFailedEmail)
   \<and> map org_id (organizations worldAfterFailedEmail) = [1]
   \<and> onboardingOrganizationId worldAfterFailedEmail (onb_id (exampleOnboarding None False)) = None
   \<and> existingOrganization worldAfterFailedEmail (exampleOnboarding None False) = None
   \<and> createOrganizationFromOnboarding (exampleEnv (Some ''teamUserIsMemberOfExists''))
        (exampleOnboarding (onboardingOrganizationId worldAfterFailedEmail 1) False) ''sub_1''
        worldAfterFailedEmail
     = (Inr (\<lparr> org_id = 2, org_name = ''Acme'', org_slug = None, org_isPlatform = False \<rparr>,
             exampleOwner),
        worldAfterRetry)
   \<and> map org_id (organizations worldAfterRetry) = [1, 2]"
  by (simp add: onboarding_defs onboarding_example_defs failedEmailEnv_def
        worldAfterFailedEmail_def worldAfterRetry_def existingOrganization_def)

subsection \<open>The creation e-mail and the platform flag\<close>

text \<open>
  Claim C6 says that the creation e-mail is skipped for an onboarding record flagged
  \<open>isPlatform\<close>. \<open>createOrganizationWithOwner\<close> does skip it when \<open>orgData.isPlatform\<close> is
  true, but \<open>createOrganizationFromOnboarding\<close> passes \<open>isPlatform: false\<close> whatever the flag of
  the record is. So on the code: whenever an invocation for a record flagged \<open>isPlatform\<close>
  creates an organization and returns, the creation e-mail has been sent.
\<close>

theorem platform_flag_does_not_skip_email:
  assumes run: "createOrganizationFromOnboarding e ob sub w = (Inr (org, owner), w')"
    and new: "org \<notin> set (organizations w)"
    and platform: "onb_isPlatform ob"
  shows "sentEmails w' = sentEmails w @
           [\<lparr> mail_to = owner_email owner, mail_orgName = onb_name ob, mail_orgSlug = onb_slug ob,
              ownerNewUsername = ownerProfileUsername e,
              ownerOldUsername = (case owner_username owner of Some u \<Rightarrow> u | None \<Rightarrow> []) \<rparr>]"
proof -
  let ?w1 = "w\<lparr> domains := domains w @ [(onb_slug ob, onb_isPlatform ob)] \<rparr>"
  let ?od = "\<lparr> od_id = onb_organizationId ob,
                    od_name = onb_name ob,
                    od_slug = onb_slug ob,
                    isOrganizationConfigured = True,
                    isOrganizationAdminReviewed = True,
                    autoAcceptEmail = secondPiece (splitOn CHR ''@'' (orgOwnerEmail ob)),
                    od_seats = onb_seats ob,
                    od_pricePerSeat = onb_pricePerSeat ob,
                    od_isPlatform = False,
                    logoUrl = onb_logo ob,
                    od_bio = onb_bio ob,
                    od_billingPeriod = onb_billingPeriod ob,
                    od_paymentSubscriptionId = sub \<rparr>"
  from run obtain ms ts where
      own: "findUserToBeOrgOwner e (orgOwnerEmail ob) = Some owner"
    and ms: "onb_invitedMembers ob = Some ms" and ts: "onb_teams ob = Some ts"
    and pre: "\<not> rejects e FindUserToBeOrgOwner"
      "\<not> rejects e (GetTranslation ''createOrganizationFromOnboarding'')"
      "\<not> rejects e SetupDomain"
    by (auto simp: createOrganizationFromOnboarding_def action_defs setupDomain_def
        split: if_splits option.splits sum.splits prod.splits)
  from own ms ts pre have eq: "createOrganizationFromOnboarding e ob sub w =
        await (createOrganizationWithOwner e owner (onb_id ob) ?od)
           (\<lambda>organization.
         await (inviteMembers e ms organization)
           (\<lambda>_.
         await (createOrMoveTeamsToOrganization e ts owner (org_id organization))
           (\<lambda>_.
         await (if \<not> truthyString (org_slug organization)
                then external (rejects e SetSlug) (setSlug (org_id organization) (onb_slug ob))
                else returnA ())
           (\<lambda>_. returnA (organization, owner))))) ?w1"
    by (simp add: createOrganizationFromOnboarding_def action_defs setupDomain_def)
  obtain r1 w2 where c1: "createOrganizationWithOwner e owner (onb_id ob) ?od ?w1 = (r1, w2)"
    by (cases "createOrganizationWithOwner e owner (onb_id ob) ?od ?w1")
  with run eq have r1: "r1 = Inr org"
    by (auto simp: await_def returnA_def split: sum.splits prod.splits if_splits)
  from createOrganizationWithOwner_cases [of e owner "onb_id ob" ?od ?w1 org w2] c1 r1 new
  have m2: "sentEmails w2 = sentEmails w @
           [\<lparr> mail_to = owner_email owner, mail_orgName = onb_name ob, mail_orgSlug = onb_slug ob,
              ownerNewUsername = ownerProfileUsername e,
              ownerOldUsername = (case owner_username owner of Some u \<Rightarrow> u | None \<Rightarrow> []) \<rparr>]"
    by auto
  obtain r2 w3 where i2: "inviteMembers e ms org w2 = (r2, w3)"
    by (cases "inviteMembers e ms org w2")
  obtain r3 w4 where i3: "createOrMoveTeamsToOrganization e ts owner (org_id org) w3 = (r3, w4)"
    by (cases "createOrMoveTeamsToOrganization e ts owner (org_id org) w3")
  from inviteMembers_frame [OF i2] createOrMoveTeamsToOrganization_frame [OF i3] m2
  have m4: "sentEmails w4 = sentEmails w2" by simp
  from run eq c1 r1 i2 i3
  have "sentEmails w' = sentEmails w4"
    by (auto simp: await_def returnA_def external_def setSlug_def
        split: sum.splits prod.splits if_splits)
  with m4 m2 show ?thesis by simp
qed

theorem platform_flag_does_not_skip_email_witness:
  "onb_isPlatform (exampleOnboarding None True)
   \<and> createOrganizationFromOnboarding (exampleEnv None) (exampleOnboarding None True) ''sub_1'' emptyWorld
       = (Inr (acmeOrganization (Some ''acme''), exampleOwner), worldWithAcme True)
   \<and> sentEmails emptyWorld = []
   \<and> sentEmails (worldWithAcme True) = [acmeCreationEmail]"
proof -
  have p: "onb_isPlatform (exampleOnboarding None True)" by (simp add: exampleOnboarding_def)
  have new: "acmeOrganization (Some ''acme'') \<notin> set (organizations emptyWorld)"
    by (simp add: emptyWorld_def)
  from platform_flag_does_not_skip_email [OF first_invocation [of True] new p]
  have "sentEmails (worldWithAcme True) = [acmeCreationEmail]"
    by (simp add: onboarding_example_defs)
  with p first_invocation [of True] show ?thesis by (simp add: emptyWorld_def)
qed

subsection \<open>The slug is set after the teams have been moved\<close>

text \<open>
  When the finalizer returns, the stored organization has the slug of the onboarding
  record if the slug of the returned organization was unset, and is the returned
  organization if the slug was set.
\<close>

lemma slug_after_return:
  assumes dist: "distinct (map org_id (organizations w))"
    and run: "createOrganizationFromOnboarding e ob sub w = (Inr (org, owner), w')"
  shows "(\<not> truthyString (org_slug org) \<longrightarrow>
            findById w' (org_id org) = Some (org\<lparr> org_slug := Some (onb_slug ob) \<rparr>))
       \<and> (truthyString (org_slug org) \<longrightarrow> findById w' (org_id org) = Some org)"
proof -
  let ?w1 = "w\<lparr> domains := domains w @ [(onb_slug ob, onb_isPlatform ob)] \<rparr>"
  let ?od = "\<lparr> od_id = onb_organizationId ob,
                    od_name = onb_name ob,
                    od_slug = onb_slug ob,
                    isOrganizationConfigured = True,
                    isOrganizationAdminReviewed = True,
                    autoAcceptEmail = secondPiece (splitOn CHR ''@'' (orgOwnerEmail ob)),
                    od_seats = onb_seats ob,
                    od_pricePerSeat = onb_pricePerSeat ob,
                    od_isPlatform = False,
                    logoUrl = onb_logo ob,
                    od_bio = onb_bio ob,
                    od_billingPeriod = onb_billingPeriod ob,
                    od_paymentSubscriptionId = sub \<rparr>"
  from run obtain ms ts where
      own: "findUserToBeOrgOwner e (orgOwnerEmail ob) = Some owner"
    and ms: "onb_invitedMembers ob = Some ms" and ts: "onb_teams ob = Some ts"
    and pre: "\<not> rejects e FindUserToBeOrgOwner"
      "\<not> rejects e (GetTranslation ''createOrganizationFromOnboarding'')"
      "\<not> rejects e SetupDomain"
    by (auto simp: createOrganizationFromOnboarding_def action_defs setupDomain_def
        split: if_splits option.splits sum.splits prod.splits)
  from own ms ts pre have eq: "createOrganizationFromOnboarding e ob sub w =
        await (createOrganizationWithOwner e owner (onb_id ob) ?od)
           (\<lambda>organization.
         await (inviteMembers e ms organization)
           (\<lambda>_.
         await (createOrMoveTeamsToOrganization e ts owner (org_id organization))
           (\<lambda>_.
         await (if \<not> truthyString (org_slug organization)
                then external (rejects e SetSlug) (setSlug (org_id organization) (onb_slug ob))
                else returnA ())
           (\<lambda>_. returnA (organization, owner))))) ?w1"
    by (simp add: createOrganizationFromOnboarding_def action_defs setupDomain_def)
  obtain r1 w2 where c1: "createOrganizationWithOwner e owner (onb_id ob) ?od ?w1 = (r1, w2)"
    by (cases "createOrganizationWithOwner e owner (onb_id ob) ?od ?w1")
  with run eq have r1: "r1 = Inr org"
    by (auto simp: await_def returnA_def split: sum.splits prod.splits if_splits)
  have d1: "distinct (map org_id (organizations ?w1))" using dist by simp
  from createOrganizationWithOwner_stored [OF d1] c1 r1
  have st2: "findById w2 (org_id org) = Some org" by simp
  obtain r2 w3 where i2: "inviteMembers e ms org w2 = (r2, w3)"
    by (cases "inviteMembers e ms org w2")
  obtain r3 w4 where i3: "createOrMoveTeamsToOrganization e ts owner (org_id org) w3 = (r3, w4)"
    by (cases "createOrMoveTeamsToOrganization e ts owner (org_id org) w3")
  from inviteMembers_frame [OF i2] createOrMoveTeamsToOrganization_frame [OF i3] st2
  have st4: "findById w4 (org_id org) = Some org" by (simp add: findById_def)
  from run eq c1 r1 i2 i3
  have fin: "w' = (if truthyString (org_slug org) then w4
                   else snd (setSlug (org_id org) (onb_slug ob) w4))"
    by (auto simp: await_def returnA_def external_def split: sum.splits prod.splits if_splits)
  show ?thesis
    using fin st4 by (simp add: findById_setSlug)
qed

text \<open>
  When no call fails and the lookup finds no organization, the finalizer creates one and
  returns it; its slug is deferred exactly when the slug is in conflict with a team of the
  owner.
\<close>

lemma createOrganizationFromOnboarding_creates:
  assumes ok: "\<forall>c. \<not> rejects e c"
    and own: "findUserToBeOrgOwner e (orgOwnerEmail ob) = Some owner"
    and ms: "onb_invitedMembers ob \<noteq> None" and ts: "onb_teams ob \<noteq> None"
    and noid: "onb_organizationId ob = None"
    and noslug: "findBySlug w (onb_slug ob) = None"
  shows "\<exists>w'. createOrganizationFromOnboarding e ob sub w =
           (Inr (\<lparr> org_id = nextOrganizationId w, org_name = onb_name ob,
                    org_slug = (if slugConflictType e = Some ''teamUserIsMemberOfExists''
                                then None else Some (onb_slug ob)),
                    org_isPlatform = False \<rparr>, owner), w')"
  using assms
  by (auto simp: createOrganizationFromOnboarding_def createOrganizationWithOwner_def
        inviteMembers_def createOrMoveTeamsToOrganization_def action_defs findBySlug_def
        nextOrganizationId_def createWithExistingUserAsOwner_def setOrganizationId_def
        setSlug_def setupDomain_def sendOrganizationCreationEmail_def availabilityCreateMany_def
        inviteMembersWithNoInviterPermissionCheck_def createTeamsHandler_def
        truthyNumber_def Let_def)

text \<open>
  Claim C7. Organization ids being distinct: when \<open>createOrganizationFromOnboarding\<close>
  returns, the stored organization has the slug of the onboarding record if the slug of the
  organization was still unset (null or empty) after the teams were created or moved, and
  is the returned organization, slug unchanged, if the slug was already set. And the
  finalizer does return on the path where the slug is deferred: when no call fails, the
  owner is found, the stored lists parse, the onboarding record has no organization id,
  no organization has its slug, and the slug is in conflict with a team of the owner, the
  finalizer returns an organization created with slug \<open>null\<close>, whose stored slug is the
  slug of the onboarding record at the end. Without the conflict the organization is
  created with its slug, which is the stored slug at the end.
\<close>

theorem slug_backfill:
  assumes dist: "distinct (map org_id (organizations w))"
  shows "(createOrganizationFromOnboarding e ob sub w = (Inr (org, owner), w') \<longrightarrow>
            (\<not> truthyString (org_slug org) \<longrightarrow>
               findById w' (org_id org) = Some (org\<lparr> org_slug := Some (onb_slug ob) \<rparr>))
          \<and> (truthyString (org_slug org) \<longrightarrow> findById w' (org_id org) = Some org))
       \<and> ((\<forall>c. \<not> rejects e c) \<and> findUserToBeOrgOwner e (orgOwnerEmail ob) = Some owner
            \<and> onb_invitedMembers ob \<noteq> None \<and> onb_teams ob \<noteq> None
            \<and> onb_organizationId ob = None \<and> findBySlug w (onb_slug ob) = None \<longrightarrow>
          (\<exists>created w''.
              createOrganizationFromOnboarding e ob sub w = (Inr (created, owner), w'')
            \<and> org_slug created = (if slugConflictType e = Some ''teamUserIsMemberOfExists''
                                  then None else Some (onb_slug ob))
            \<and> findById w'' (org_id created)
                = Some (created\<lparr> org_slug := Some (onb_slug ob) \<rparr>)))"
proof (rule conjI)
  show "createOrganizationFromOnboarding e ob sub w = (Inr (org, owner), w') \<longrightarrow>
            (\<not> truthyString (org_slug org) \<longrightarrow>
               findById w' (org_id org) = Some (org\<lparr> org_slug := Some (onb_slug ob) \<rparr>))
          \<and> (truthyString (org_slug org) \<longrightarrow> findById w' (org_id org) = Some org)"
  proof (rule impI)
    assume run: "createOrganizationFromOnboarding e ob sub w = (Inr (org, owner), w')"
    from slug_after_return [OF dist run]
    show "(\<not> truthyString (org_slug org) \<longrightarrow>
               findById w' (org_id org) = Some (org\<lparr> org_slug := Some (onb_slug ob) \<rparr>))
          \<and> (truthyString (org_slug org) \<longrightarrow> findById w' (org_id org) = Some org)" .
  qed
next
  show "(\<forall>c. \<not> rejects e c) \<and> findUserToBeOrgOwner e (orgOwnerEmail ob) = Some owner
            \<and> onb_invitedMembers ob \<noteq> None \<and> onb_teams ob \<noteq> None
            \<and> onb_organizationId ob = None \<and> findBySlug w (onb_slug ob) = None \<longrightarrow>
          (\<exists>created w''.
              createOrganizationFromOnboarding e ob sub w = (Inr (created, owner), w'')
            \<and> org_slug created = (if slugConflictType e = Some ''teamUserIsMemberOfExists''
                                  then None else Some (onb_slug ob))
            \<and> findById w'' (org_id created)
                = Some (created\<lparr> org_slug := Some (onb_slug ob) \<rparr>))"
  proof (rule impI)
    assume hyp: "(\<forall>c. \<not> rejects e c) \<and> findUserToBeOrgOwner e (orgOwnerEmail ob) = Some owner
            \<and> onb_invitedMembers ob \<noteq> None \<and> onb_teams ob \<noteq> None
            \<and> onb_organizationId ob = None \<and> findBySlug w (onb_slug ob) = None"
    let ?created = "\<lparr> org_id = nextOrganizationId w, org_name = onb_name ob,
                    org_slug = (if slugConflictType e = Some ''teamUserIsMemberOfExists''
                                then None else Some (onb_slug ob)),
                    org_isPlatform = False \<rparr>"
    from hyp createOrganizationFromOnboarding_creates [of e ob owner w sub]
    obtain w'' where run: "createOrganizationFromOnboarding e ob sub w = (Inr (?created, owner), w'')"
      by blast
    from slug_after_return [OF dist run]
    have "findById w'' (org_id ?created) = Some (?created\<lparr> org_slug := Some (onb_slug ob) \<rparr>)"
      by (cases "truthyString (org_slug ?created)") (auto simp: truthyString_def split: if_splits)
    with run show "\<exists>created w''.
              createOrganizationFromOnboarding e ob sub w = (Inr (created, owner), w'')
            \<and> org_slug created = (if slugConflictType e = Some ''teamUserIsMemberOfExists''
                                  then None else Some (onb_slug ob))
            \<and> findById w'' (org_id created)
                = Some (created\<lparr> org_slug := Some (onb_slug ob) \<rparr>)"
      by (intro exI [of _ ?created] exI [of _ w'']) simp
  qed
qed

text \<open>
  A creation with the slug deferred, where the slug is set at the end, and a creation with
  the slug set at once.
\<close>

theorem slug_backfill_witness:
  "createOrganizationFromOnboarding (exampleEnv (Some ''teamUserIsMemberOfExists''))
       (exampleOnboarding None False) ''sub_1'' emptyWorld
     = (Inr (acmeOrganization None, exampleOwner), worldWithAcme False)
   \<and> findById (worldWithAcme False) 1 = Some (acmeOrganization (Some ''acme''))
   \<and> createOrganizationFromOnboarding (exampleEnv None)
       (exampleOnboarding None False) ''sub_1'' emptyWorld
     = (Inr (acmeOrganization (Some ''acme''), exampleOwner), worldWithAcme False)
   \<and> (\<exists>created w''.
        createOrganizationFromOnboarding (exampleEnv (Some ''teamUserIsMemberOfExists''))
          (exampleOnboarding None False) ''sub_1'' emptyWorld = (Inr (created, exampleOwner), w'')
      \<and> org_slug created = None
      \<and> findById w'' (org_id created) = Some (created\<lparr> org_slug := Some ''acme'' \<rparr>))"
proof -
  let ?e = "exampleEnv (Some ''teamUserIsMemberOfExists'')"
  let ?ob = "exampleOnboarding None False"
  have d: "distinct (map org_id (organizations emptyWorld))" by (simp add: emptyWorld_def)
  have unset: "\<not> truthyString (org_slug (acmeOrganization None))"
    by (simp add: truthyString_def acmeOrganization_def)
  have set: "truthyString (org_slug (acmeOrganization (Some ''acme'')))"
    by (simp add: truthyString_def acmeOrganization_def)
  have hyp: "(\<forall>c. \<not> rejects ?e c) \<and> findUserToBeOrgOwner ?e (orgOwnerEmail ?ob) = Some exampleOwner
            \<and> onb_invitedMembers ?ob \<noteq> None \<and> onb_teams ?ob \<noteq> None
            \<and> onb_organizationId ?ob = None \<and> findBySlug emptyWorld (onb_slug ?ob) = None"
    by (simp add: onboarding_example_defs findBySlug_def)
  have a: "findById (worldWithAcme False) (org_id (acmeOrganization None))
             = Some ((acmeOrganization None)\<lparr> org_slug := Some (onb_slug ?ob) \<rparr>)"
    using slug_backfill [OF d, THEN conjunct1, THEN mp, OF first_invocation_deferred_slug,
        THEN conjunct1, THEN mp, OF unset] .
  have b: "findById (worldWithAcme False) (org_id (acmeOrganization (Some ''acme'')))
             = Some (acmeOrganization (Some ''acme''))"
    using slug_backfill [OF d, THEN conjunct1, THEN mp, OF first_invocation [of False],
        THEN conjunct2, THEN mp, OF set] .
  have c: "\<exists>created w''.
        createOrganizationFromOnboarding ?e ?ob ''sub_1'' emptyWorld = (Inr (created, exampleOwner), w'')
      \<and> org_slug created = None
      \<and> findById w'' (org_id created) = Some (created\<lparr> org_slug := Some ''acme'' \<rparr>)"
    using slug_backfill [OF d, THEN conjunct2, THEN mp, OF hyp, of "''sub_1''"]
    by (simp add: exampleEnv_def exampleOnboarding_def)
  from a b c first_invocation_deferred_slug first_invocation [of False] show ?thesis
    by (simp add: acmeOrganization_def exampleOnboarding_def)
qed

section \<open>Properties of the seat cancellation\<close>

text \<open>
  The calls of one invocation are taken one after the other, each with the outcome the
  environment gives it. A promise that is not awaited where it is made has no handler
  until \<open>Promise.all\<close> or \<open>catch\<close> is called on it; the environment says whether it
  rejects while the handler is suspended at a call awaited in between.
\<close>

subsection \<open>The two best-effort blocks\<close>


















subsection \<open>Runs on the example\<close>

lemmas seat_example_defs = exampleBooking_def exampleRequest_def exampleWebhooks_def
  exampleEvent_def failing_def failingEarly_def emptySeatWorld_def

lemmas seat_defs = cancelAttendeeSeat_def updateIntegrationsAndNotify_def sendWebhookPayloads_def
  sendPayloadCaught_def updateIntegration_def await_def tryCatch_def returnA_def throwA_def
  awaitAll_def start_def outcome_def perform_def performPending_def loggerError_def
  setStatusCode_def truthyNumber_def Let_def


text \<open>
  The update of the video meeting rejects while the credential of the next reference is
  awaited: no handler is attached to its promise yet, and the run stops with an unhandled
  rejection, before the attendee is notified and before the webhooks are called.
\<close>

lemma update_rejected_before_promise_all:
  "cancelAttendeeSeat failingEarly exampleRequest exampleWebhooks exampleEvent emptySeatWorld
     = (Inl UnhandledRejection,
        \<lparr> calls = [BookingSeatDelete ''seat-1'', AttendeeDelete 1, CredentialFindUnique 3,
                   UpdateMeeting ''meet-1'', CredentialFindUnique 4],
          errorLog = [], statusCode = Some 200,
          unhandledRejections = [UpdateMeeting ''meet-1''] \<rparr>)"
  by (simp add: seat_defs seat_example_defs)

subsection \<open>Failures of integrations and webhooks\<close>




end
